theory Spec2Isabelle
  imports Complex_Main "HOL-Library.AList"
begin

section \<open>Values and exceptions\<close>

text \<open>
  The Python values that travel between the handlers, the executor and the database
  driver: bound parameters, the cells of a fetched row, rows (dictionaries, in insertion
  order) and lists of rows. The salary of an employee is a Python float on which the
  program performs no arithmetic; it is carried as a real number.
\<close>

datatype pyval =
    PNone
  | PInt int
  | PStr string
  | PFloat real
  | PDict "(string \<times> pyval) list"
  | PList "pyval list"

text \<open>A fetched row (the cursor is created with \<open>dictionary=True\<close>) and the \<open>.dict()\<close> of a
  request model.\<close>

type_synonym row = "(string \<times> pyval) list"

text \<open>Truth value of a Python value (\<open>not v\<close> is \<open>falsy v\<close>) and the test \<open>v == 0\<close>.\<close>

fun falsy :: "pyval \<Rightarrow> bool" where
  "falsy PNone = True"
| "falsy (PInt n) = (n = 0)"
| "falsy (PStr s) = (s = [])"
| "falsy (PFloat x) = (x = 0)"
| "falsy (PDict d) = (d = [])"
| "falsy (PList l) = (l = [])"

fun eq_zero :: "pyval \<Rightarrow> bool" where
  "eq_zero (PInt n) = (n = 0)"
| "eq_zero (PFloat x) = (x = 0)"
| "eq_zero _ = False"

text \<open>
  The exceptions of the program. \<open>MySQLError errno\<close> stands for
  \<open>mysql.connector.Error\<close> and its subclasses, \<open>OtherError\<close> for any exception that is
  not one of them.
\<close>

datatype exc =
    MySQLError int
  | RuntimeError string
  | ValueError
  | HTTPException nat string
  | OtherError string

section \<open>database.py: configuration\<close>

type_synonym environ = "string \<rightharpoonup> string"

definition getenv :: "environ \<Rightarrow> string \<Rightarrow> string \<Rightarrow> string" where
  "getenv env k d = (case env k of None \<Rightarrow> d | Some v \<Rightarrow> v)"

record DBConfig =
  host :: string
  user :: string
  password :: string
  database :: string
  port :: int
  ssl_disabled :: bool
  pool_size :: int

text \<open>
  \<open>int(os.getenv(k, d))\<close> with an integer default \<open>d\<close>: the default is used as it is when
  the variable is unset; a value that is set is a string and goes through the builtin
  \<open>int\<close>, given here as \<open>py_int\<close> (\<open>None\<close> when it raises \<open>ValueError\<close>).
\<close>

definition getenv_int :: "(string \<Rightarrow> int option) \<Rightarrow> environ \<Rightarrow> string \<Rightarrow> int \<Rightarrow> exc + int" where
  "getenv_int py_int env k d =
     (case env k of
        None \<Rightarrow> Inr d
      | Some v \<Rightarrow> (case py_int v of None \<Rightarrow> Inl ValueError | Some n \<Rightarrow> Inr n))"

definition DBConfig_init :: "(string \<Rightarrow> int option) \<Rightarrow> environ \<Rightarrow> exc + DBConfig" where
  "DBConfig_init py_int env =
     (case getenv_int py_int env ''DB_PORT'' 3306 of
        Inl e \<Rightarrow> Inl e
      | Inr p \<Rightarrow>
         (case getenv_int py_int env ''DB_POOL_SIZE'' 3 of
            Inl e \<Rightarrow> Inl e
          | Inr n \<Rightarrow>
             Inr \<lparr> host = getenv env ''DB_HOST'' ''bsuwmw1ycddteycis6m7-mysql.services.clever-cloud.com'',
                   user = getenv env ''DB_USER'' ''u2laijuwgrququak'',
                   password = getenv env ''DB_PASSWORD'' ''K7tO7lfFm2i7vXAGHN6U'',
                   database = getenv env ''DB_NAME'' ''bsuwmw1ycddteycis6m7'',
                   port = p,
                   ssl_disabled = (getenv env ''SSL_DISABLED'' ''True'' = ''True''),
                   pool_size = n \<rparr>))"

definition connection_params :: "DBConfig \<Rightarrow> (string \<times> pyval) list" where
  "connection_params self =
     (let params = [(''host'', PStr (host self)),
                    (''user'', PStr (user self)),
                    (''password'', PStr (password self)),
                    (''database'', PStr (database self)),
                    (''port'', PInt (port self))]
      in if \<not> ssl_disabled self then params @ [(''ssl_ca'', PStr ''/etc/ssl/cert.pem'')]
         else params)"

section \<open>database.py: creation of the connection pool\<close>

text \<open>
  The pool of \<open>mysql.connector.pooling\<close>, reduced to what the program observes: its name,
  its size and the number of connections that are in the pool at the moment.
\<close>

record pool =
  p_name :: string
  p_size :: int
  available :: nat

definition ER_USER_LIMIT_REACHED :: int where
  "ER_USER_LIMIT_REACHED = 1226"

text \<open>
  The constructor \<open>pooling.MySQLConnectionPool(pool_name, pool_size, **params)\<close> opens the
  connections at once; whether the server accepts them is the environment's choice, given
  as \<open>ctor\<close> (\<open>None\<close> when the pool is built, the exception otherwise).
\<close>

type_synonym pool_ctor = "string \<Rightarrow> int \<Rightarrow> (string \<times> pyval) list \<Rightarrow> exc option"

definition MySQLConnectionPool :: "pool_ctor \<Rightarrow> string \<Rightarrow> int \<Rightarrow> (string \<times> pyval) list \<Rightarrow> exc + pool" where
  "MySQLConnectionPool ctor nm n params =
     (case ctor nm n params of
        Some e \<Rightarrow> Inl e
      | None \<Rightarrow> Inr \<lparr> p_name = nm, p_size = n, available = nat n \<rparr>)"

text \<open>
  The module-level \<open>try\<close> block. The result carries the list of the constructor calls
  that were made (pool name and size), in order.
\<close>

definition create_pool :: "pool_ctor \<Rightarrow> DBConfig \<Rightarrow> (string \<times> int) list \<times> (exc + pool)" where
  "create_pool ctor db_config =
     (case MySQLConnectionPool ctor ''fastapi_pool'' (pool_size db_config) (connection_params db_config) of
        Inr p \<Rightarrow> ([(''fastapi_pool'', pool_size db_config)], Inr p)
      | Inl (MySQLError errno) \<Rightarrow>
          if errno = ER_USER_LIMIT_REACHED then
            (let reduced_size = min 3 (pool_size db_config - 2) in
             ([(''fastapi_pool'', pool_size db_config), (''fastapi_pool_reduced'', reduced_size)],
              (case MySQLConnectionPool ctor ''fastapi_pool_reduced'' reduced_size (connection_params db_config) of
                 Inr p \<Rightarrow> Inr p
               | Inl (MySQLError errno2) \<Rightarrow> Inl (RuntimeError ''No se pudo crear el pool de conexiones'')
               | Inl e \<Rightarrow> Inl e)))
          else ([(''fastapi_pool'', pool_size db_config)],
                Inl (RuntimeError ''Error de conexion a la base de datos''))
      | Inl e \<Rightarrow> ([(''fastapi_pool'', pool_size db_config)], Inl e))"

section \<open>database.py: the query executor\<close>

text \<open>
  The module state (\<open>db_config\<close>, \<open>connection_pool\<close>), the committed contents of the
  database behind the pool, and the trace of what a call did to the driver: a connection
  was obtained from the pool (\<open>Acquired\<close>), \<open>conn.close()\<close> returned it (\<open>Released\<close>),
  \<open>cursor.execute\<close> was called with a statement text and its bound parameters
  (\<open>Execute\<close>), \<open>conn.commit()\<close> was called (\<open>Commit\<close>).
\<close>

datatype event = Acquired | Released | Execute string "pyval list" | Commit

record 'db world =
  db_config :: DBConfig
  connection_pool :: "pool option"
  server_db :: 'db
  trace :: "event list"

text \<open>
  What the driver and the server do during one call is the environment's choice: each
  driver call of \<open>execute_query\<close> may raise, and \<open>conn.is_connected()\<close> answers as
  \<open>is_connected\<close> says when the connection block is left.
\<close>

record faults =
  get_connection_exc :: "exc option"
  cursor_exc :: "exc option"
  execute_exc :: "exc option"
  fetch_exc :: "exc option"
  commit_exc :: "exc option"
  cursor_close_exc :: "exc option"
  is_connected :: bool

definition no_faults :: faults where
  "no_faults = \<lparr> get_connection_exc = None, cursor_exc = None, execute_exc = None,
                  fetch_exc = None, commit_exc = None, cursor_close_exc = None,
                  is_connected = True \<rparr>"

text \<open>
  The cursor after a statement has run, and the server's answer to a statement: the
  cursor and the contents of the database inside the open transaction, or an error.
\<close>

record cursor =
  rows :: "row list"
  rowcount :: int
  lastrowid :: int

type_synonym 'db backend = "string \<Rightarrow> pyval list \<Rightarrow> 'db \<Rightarrow> exc + (cursor \<times> 'db)"

definition record_ev :: "event \<Rightarrow> 'db world \<Rightarrow> 'db world" where
  "record_ev e w = w\<lparr> trace := trace w @ [e] \<rparr>"

text \<open>\<open>connection_pool.get_connection()\<close>: an exhausted pool raises \<open>PoolError\<close>.\<close>

definition get_connection :: "faults \<Rightarrow> pool \<Rightarrow> 'db world \<Rightarrow> (exc + unit) \<times> 'db world" where
  "get_connection f p w =
     (case get_connection_exc f of
        Some e \<Rightarrow> (Inl e, w)
      | None \<Rightarrow>
          if available p = 0 then (Inl (MySQLError (- 1)), w)
          else (Inr (), record_ev Acquired
                  (w\<lparr> connection_pool := Some (p\<lparr> available := available p - 1 \<rparr>) \<rparr>)))"

text \<open>\<open>conn.close()\<close> on a pooled connection puts it back into the pool.\<close>

definition conn_close :: "'db world \<Rightarrow> 'db world" where
  "conn_close w =
     record_ev Released
       (w\<lparr> connection_pool :=
            map_option (\<lambda>p. p\<lparr> available := available p + 1 \<rparr>) (connection_pool w) \<rparr>)"

text \<open>
  The context manager \<open>get_db_connection\<close>, applied to the body of its \<open>with\<close> block.
  The \<open>except\<close> clause logs and raises again; the \<open>finally\<close> clause closes the connection
  when there is one and it answers \<open>is_connected()\<close>.
\<close>

definition get_db_connection ::
  "faults \<Rightarrow> ('db world \<Rightarrow> (exc + 'a) \<times> 'db world) \<Rightarrow> 'db world \<Rightarrow> (exc + 'a) \<times> 'db world" where
  "get_db_connection f body w =
     (case connection_pool w of
        None \<Rightarrow> (Inl (RuntimeError ''El pool de conexiones no esta inicializado''), w)
      | Some p \<Rightarrow>
          (case get_connection f p w of
             (Inl e, w1) \<Rightarrow> (Inl e, w1)
           | (Inr u, w1) \<Rightarrow>
               (case body w1 of
                  (r, w2) \<Rightarrow> (r, if is_connected f then conn_close w2 else w2))))"

text \<open>
  The context manager \<open>get_db_cursor\<close>: \<open>conn.cursor(dictionary=True)\<close>, the body, and
  \<open>cursor.close()\<close> in the \<open>finally\<close> clause, whose exception replaces the body's outcome.
\<close>

definition get_db_cursor ::
  "faults \<Rightarrow> ('db world \<Rightarrow> (exc + 'a) \<times> 'db world) \<Rightarrow> 'db world \<Rightarrow> (exc + 'a) \<times> 'db world" where
  "get_db_cursor f body w =
     get_db_connection f
       (\<lambda>w1. case cursor_exc f of
                Some e \<Rightarrow> (Inl e, w1)
              | None \<Rightarrow>
                  (case body w1 of
                     (r, w2) \<Rightarrow>
                       (case cursor_close_exc f of
                          Some e \<Rightarrow> (Inl e, w2)
                        | None \<Rightarrow> (r, w2)))) w"

definition cursor_execute ::
  "'db backend \<Rightarrow> faults \<Rightarrow> string \<Rightarrow> pyval list \<Rightarrow> 'db world \<Rightarrow> (exc + (cursor \<times> 'db)) \<times> 'db world" where
  "cursor_execute be f query ps w =
     (let w1 = record_ev (Execute query ps) w in
      case execute_exc f of
        Some e \<Rightarrow> (Inl e, w1)
      | None \<Rightarrow> (be query ps (server_db w), w1))"

definition fetchone :: "faults \<Rightarrow> cursor \<Rightarrow> exc + pyval" where
  "fetchone f cur =
     (case fetch_exc f of
        Some e \<Rightarrow> Inl e
      | None \<Rightarrow> Inr (case rows cur of [] \<Rightarrow> PNone | r # rs \<Rightarrow> PDict r))"

definition fetchall :: "faults \<Rightarrow> cursor \<Rightarrow> exc + pyval" where
  "fetchall f cur =
     (case fetch_exc f of
        Some e \<Rightarrow> Inl e
      | None \<Rightarrow> Inr (PList (map PDict (rows cur))))"

text \<open>\<open>conn.commit()\<close> makes the contents of the open transaction the committed ones.\<close>

definition conn_commit :: "faults \<Rightarrow> 'db \<Rightarrow> 'db world \<Rightarrow> (exc + unit) \<times> 'db world" where
  "conn_commit f db' w =
     (let w1 = record_ev Commit w in
      case commit_exc f of
        Some e \<Rightarrow> (Inl e, w1)
      | None \<Rightarrow> (Inr (), w1\<lparr> server_db := db' \<rparr>))"

text \<open>\<open>params or ()\<close>: \<open>None\<close> and the empty tuple both give the empty tuple.\<close>

definition params_or_empty :: "pyval list option \<Rightarrow> pyval list" where
  "params_or_empty params = (case params of None \<Rightarrow> [] | Some ps \<Rightarrow> ps)"

text \<open>
  The block of \<open>execute_query\<close> under \<open>with get_db_cursor() as (cursor, conn)\<close>, and
  \<open>execute_query\<close> itself. (The last flag is named \<open>lastrowid\<close> in the source.)
\<close>

definition query_block ::
  "'db backend \<Rightarrow> faults \<Rightarrow> string \<Rightarrow> pyval list option \<Rightarrow> bool \<Rightarrow> bool \<Rightarrow> bool \<Rightarrow>
   'db world \<Rightarrow> (exc + pyval) \<times> 'db world" where
  "query_block be f query params fetch_one fetch_all lastrowid_flag w1 =
     (case cursor_execute be f query (params_or_empty params) w1 of
        (Inl e, w2) \<Rightarrow> (Inl e, w2)
      | (Inr (cur, db'), w2) \<Rightarrow>
          if fetch_one then (fetchone f cur, w2)
          else if fetch_all then (fetchall f cur, w2)
          else if lastrowid_flag then
            (case conn_commit f db' w2 of
               (Inl e, w3) \<Rightarrow> (Inl e, w3)
             | (Inr u, w3) \<Rightarrow> (Inr (PInt (lastrowid cur)), w3))
          else
            (case conn_commit f db' w2 of
               (Inl e, w3) \<Rightarrow> (Inl e, w3)
             | (Inr u, w3) \<Rightarrow> (Inr (PInt (rowcount cur)), w3)))"

definition execute_query ::
  "'db backend \<Rightarrow> faults \<Rightarrow> string \<Rightarrow> pyval list option \<Rightarrow> bool \<Rightarrow> bool \<Rightarrow> bool \<Rightarrow>
   'db world \<Rightarrow> (exc + pyval) \<times> 'db world" where
  "execute_query be f query params fetch_one fetch_all lastrowid_flag w =
     get_db_cursor f (query_block be f query params fetch_one fetch_all lastrowid_flag) w"

section \<open>database.py: the module as a whole\<close>

text \<open>
  Importing the module reads the configuration from the environment, once, and creates the
  pool; an exception at this point ends the process before any request is served.
\<close>

definition database_module ::
  "(string \<Rightarrow> int option) \<Rightarrow> pool_ctor \<Rightarrow> environ \<Rightarrow> 'db \<Rightarrow> exc + 'db world" where
  "database_module py_int ctor env db =
     (case DBConfig_init py_int env of
        Inl e \<Rightarrow> Inl e
      | Inr cfg \<Rightarrow>
          (case snd (create_pool ctor cfg) of
             Inl e \<Rightarrow> Inl e
           | Inr p \<Rightarrow>
               Inr \<lparr> db_config = cfg, connection_pool = Some p, server_db = db, trace = [] \<rparr>))"

section \<open>main.py: request models, responses and handlers\<close>

text \<open>
  The request models of pydantic, after validation by the framework: every \<open>str\<close> field is
  a string (possibly empty), \<open>email_cliente\<close> is optional. The messages of the source that
  contain accented letters are written without the accents.
\<close>

record EmpleadoCreate =
  nombre :: string
  puesto :: string
  salario :: real

record ClienteCreate =
  numero_identificacion :: string
  nombre_cliente :: string
  telefono_cliente :: string
  email_cliente :: "string option"

record ProveedorCreate =
  numero_identificacion :: string
  nombre_proveedor :: string
  contacto_principal :: string
  telefono_proveedor :: string

definition opt_str :: "string option \<Rightarrow> pyval" where
  "opt_str s = (case s of None \<Rightarrow> PNone | Some t \<Rightarrow> PStr t)"

text \<open>
  A handler returns a response with the status code of its route decorator, or raises: an
  \<open>HTTPException\<close> of its own, or the exception of the executor where the handler has no
  \<open>try\<close>. \<open>{**m.dict(), k: v}\<close> is \<open>AList.update k v\<close> on the dictionary of the model.
  The path parameter \<open>id\<close> of the source is written \<open>id'\<close>. What the framework does
  around a handler (parsing the request, filtering the returned record through the
  response model, turning an uncaught exception into status 500) is not part of it.
\<close>

record response =
  status_code :: nat
  body :: pyval

subsection \<open>Routes of \<open>/empleados\<close>\<close>

definition EmpleadoCreate_dict :: "EmpleadoCreate \<Rightarrow> row" where
  "EmpleadoCreate_dict empleado =
     [(''nombre'', PStr (nombre empleado)),
      (''puesto'', PStr (puesto empleado)),
      (''salario'', PFloat (salario empleado))]"

definition EmpleadoCreate_params :: "EmpleadoCreate \<Rightarrow> pyval list" where
  "EmpleadoCreate_params empleado =
     [PStr (nombre empleado),
      PStr (puesto empleado),
      PFloat (salario empleado)]"

definition get_empleados :: "'db backend \<Rightarrow> faults \<Rightarrow> 'db world \<Rightarrow> (exc + response) \<times> 'db world" where
  "get_empleados be f w =
     (case execute_query be f ''SELECT * FROM empleados'' None False True False w of
        (r, w') \<Rightarrow>
          (case r of
             Inl e \<Rightarrow> Inl (HTTPException 500 ''Error interno del servidor'')
           | Inr result \<Rightarrow> Inr \<lparr> status_code = 200, body = result \<rparr>,
           w'))"

definition get_empleado :: "'db backend \<Rightarrow> faults \<Rightarrow> int \<Rightarrow> 'db world \<Rightarrow> (exc + response) \<times> 'db world" where
  "get_empleado be f id' w =
     (case execute_query be f ''SELECT * FROM empleados WHERE id = %s'' (Some [PInt id']) True False False w of
        (r, w') \<Rightarrow>
          (case r of
             Inl e \<Rightarrow> Inl e
           | Inr empleado \<Rightarrow>
               if falsy empleado then Inl (HTTPException 404 ''Empleado no encontrado'')
               else Inr \<lparr> status_code = 200, body = empleado \<rparr>,
           w'))"

definition create_empleado :: "'db backend \<Rightarrow> faults \<Rightarrow> EmpleadoCreate \<Rightarrow> 'db world \<Rightarrow> (exc + response) \<times> 'db world" where
  "create_empleado be f empleado w =
     (case execute_query be f
             ''INSERT INTO empleados (nombre, puesto, salario) VALUES (%s, %s, %s)''
             (Some (EmpleadoCreate_params empleado)) False False True w of
        (r, w') \<Rightarrow>
          (case r of
             Inl e \<Rightarrow> Inl (HTTPException 500 ''Error interno del servidor'')
           | Inr empleado_id \<Rightarrow>
               Inr \<lparr> status_code = 201,
                     body = PDict (AList.update ''id'' empleado_id (EmpleadoCreate_dict empleado)) \<rparr>,
           w'))"

definition update_empleado :: "'db backend \<Rightarrow> faults \<Rightarrow> int \<Rightarrow> EmpleadoCreate \<Rightarrow> 'db world \<Rightarrow> (exc + response) \<times> 'db world" where
  "update_empleado be f id' empleado w =
     (case execute_query be f
             ''UPDATE empleados SET nombre=%s, puesto=%s, salario=%s WHERE id=%s''
             (Some (EmpleadoCreate_params empleado @ [PInt id'])) False False False w of
        (r, w') \<Rightarrow>
          (case r of
             Inl e \<Rightarrow> Inl e
           | Inr affected_rows \<Rightarrow>
               if eq_zero affected_rows then Inl (HTTPException 404 ''Empleado no encontrado'')
               else Inr \<lparr> status_code = 200,
                          body = PDict (AList.update ''id'' (PInt id') (EmpleadoCreate_dict empleado)) \<rparr>,
           w'))"

definition delete_empleado :: "'db backend \<Rightarrow> faults \<Rightarrow> int \<Rightarrow> 'db world \<Rightarrow> (exc + response) \<times> 'db world" where
  "delete_empleado be f id' w =
     (case execute_query be f ''DELETE FROM empleados WHERE id = %s'' (Some [PInt id']) False False False w of
        (r, w') \<Rightarrow>
          (case r of
             Inl e \<Rightarrow> Inl e
           | Inr affected_rows \<Rightarrow>
               if eq_zero affected_rows then Inl (HTTPException 404 ''Empleado no encontrado'')
               else Inr \<lparr> status_code = 204, body = PNone \<rparr>,
           w'))"

subsection \<open>Routes of \<open>/clientes\<close>\<close>

definition ClienteCreate_dict :: "ClienteCreate \<Rightarrow> row" where
  "ClienteCreate_dict cliente =
     [(''numero_identificacion'', PStr (ClienteCreate.numero_identificacion cliente)),
      (''nombre_cliente'', PStr (nombre_cliente cliente)),
      (''telefono_cliente'', PStr (telefono_cliente cliente)),
      (''email_cliente'', opt_str (email_cliente cliente))]"

definition ClienteCreate_params :: "ClienteCreate \<Rightarrow> pyval list" where
  "ClienteCreate_params cliente =
     [PStr (ClienteCreate.numero_identificacion cliente),
      PStr (nombre_cliente cliente),
      PStr (telefono_cliente cliente),
      opt_str (email_cliente cliente)]"

definition ClienteCreate_missing :: "ClienteCreate \<Rightarrow> bool" where
  "ClienteCreate_missing cliente =
     (ClienteCreate.numero_identificacion cliente = []
      \<or> nombre_cliente cliente = []
      \<or> telefono_cliente cliente = [])"

definition get_clientes :: "'db backend \<Rightarrow> faults \<Rightarrow> 'db world \<Rightarrow> (exc + response) \<times> 'db world" where
  "get_clientes be f w =
     (case execute_query be f ''SELECT * FROM clientes'' None False True False w of
        (r, w') \<Rightarrow>
          (case r of
             Inl e \<Rightarrow> Inl (HTTPException 500 ''Error interno del servidor'')
           | Inr result \<Rightarrow> Inr \<lparr> status_code = 200, body = result \<rparr>,
           w'))"

definition get_cliente :: "'db backend \<Rightarrow> faults \<Rightarrow> int \<Rightarrow> 'db world \<Rightarrow> (exc + response) \<times> 'db world" where
  "get_cliente be f id' w =
     (case execute_query be f ''SELECT * FROM clientes WHERE id_cliente = %s'' (Some [PInt id']) True False False w of
        (r, w') \<Rightarrow>
          (case r of
             Inl e \<Rightarrow> Inl e
           | Inr cliente \<Rightarrow>
               if falsy cliente then Inl (HTTPException 404 ''Cliente no encontrado'')
               else Inr \<lparr> status_code = 200, body = cliente \<rparr>,
           w'))"

definition create_cliente :: "'db backend \<Rightarrow> faults \<Rightarrow> ClienteCreate \<Rightarrow> 'db world \<Rightarrow> (exc + response) \<times> 'db world" where
  "create_cliente be f cliente w =
     (if ClienteCreate_missing cliente then (Inl (HTTPException 400 ''Numero de identificacion, nombre y telefono son obligatorios''), w)
      else
     (case execute_query be f
             ''INSERT INTO clientes (numero_identificacion, nombre_cliente, telefono_cliente, email_cliente) VALUES (%s, %s, %s, %s)''
             (Some (ClienteCreate_params cliente)) False False True w of
        (r, w') \<Rightarrow>
          (case r of
             Inl e \<Rightarrow> Inl (HTTPException 500 ''Error interno del servidor'')
           | Inr cliente_id \<Rightarrow>
               Inr \<lparr> status_code = 201,
                     body = PDict (AList.update ''id_cliente'' cliente_id (ClienteCreate_dict cliente)) \<rparr>,
           w')))"

definition update_cliente :: "'db backend \<Rightarrow> faults \<Rightarrow> int \<Rightarrow> ClienteCreate \<Rightarrow> 'db world \<Rightarrow> (exc + response) \<times> 'db world" where
  "update_cliente be f id' cliente w =
     (if ClienteCreate_missing cliente then (Inl (HTTPException 400 ''Numero de identificacion, nombre y telefono son obligatorios''), w)
      else
     (case execute_query be f
             ''UPDATE clientes SET numero_identificacion=%s, nombre_cliente=%s, telefono_cliente=%s, email_cliente=%s WHERE id_cliente=%s''
             (Some (ClienteCreate_params cliente @ [PInt id'])) False False False w of
        (r, w') \<Rightarrow>
          (case r of
             Inl e \<Rightarrow> Inl e
           | Inr affected_rows \<Rightarrow>
               if eq_zero affected_rows then Inl (HTTPException 404 ''Cliente no encontrado'')
               else Inr \<lparr> status_code = 200,
                          body = PDict (AList.update ''id_cliente'' (PInt id') (ClienteCreate_dict cliente)) \<rparr>,
           w')))"

definition delete_cliente :: "'db backend \<Rightarrow> faults \<Rightarrow> int \<Rightarrow> 'db world \<Rightarrow> (exc + response) \<times> 'db world" where
  "delete_cliente be f id' w =
     (case execute_query be f ''DELETE FROM clientes WHERE id_cliente = %s'' (Some [PInt id']) False False False w of
        (r, w') \<Rightarrow>
          (case r of
             Inl e \<Rightarrow> Inl e
           | Inr affected_rows \<Rightarrow>
               if eq_zero affected_rows then Inl (HTTPException 404 ''Cliente no encontrado'')
               else Inr \<lparr> status_code = 204, body = PNone \<rparr>,
           w'))"

subsection \<open>Routes of \<open>/proveedores\<close>\<close>

definition ProveedorCreate_dict :: "ProveedorCreate \<Rightarrow> row" where
  "ProveedorCreate_dict proveedor =
     [(''numero_identificacion'', PStr (ProveedorCreate.numero_identificacion proveedor)),
      (''nombre_proveedor'', PStr (nombre_proveedor proveedor)),
      (''contacto_principal'', PStr (contacto_principal proveedor)),
      (''telefono_proveedor'', PStr (telefono_proveedor proveedor))]"

definition ProveedorCreate_params :: "ProveedorCreate \<Rightarrow> pyval list" where
  "ProveedorCreate_params proveedor =
     [PStr (ProveedorCreate.numero_identificacion proveedor),
      PStr (nombre_proveedor proveedor),
      PStr (contacto_principal proveedor),
      PStr (telefono_proveedor proveedor)]"

definition ProveedorCreate_missing :: "ProveedorCreate \<Rightarrow> bool" where
  "ProveedorCreate_missing proveedor =
     (ProveedorCreate.numero_identificacion proveedor = []
      \<or> nombre_proveedor proveedor = []
      \<or> contacto_principal proveedor = []
      \<or> telefono_proveedor proveedor = [])"

definition get_proveedores :: "'db backend \<Rightarrow> faults \<Rightarrow> 'db world \<Rightarrow> (exc + response) \<times> 'db world" where
  "get_proveedores be f w =
     (case execute_query be f ''SELECT * FROM proveedores'' None False True False w of
        (r, w') \<Rightarrow>
          (case r of
             Inl e \<Rightarrow> Inl (HTTPException 500 ''Error interno del servidor'')
           | Inr result \<Rightarrow> Inr \<lparr> status_code = 200, body = result \<rparr>,
           w'))"

definition get_proveedor :: "'db backend \<Rightarrow> faults \<Rightarrow> int \<Rightarrow> 'db world \<Rightarrow> (exc + response) \<times> 'db world" where
  "get_proveedor be f id' w =
     (case execute_query be f ''SELECT * FROM proveedores WHERE id_proveedor = %s'' (Some [PInt id']) True False False w of
        (r, w') \<Rightarrow>
          (case r of
             Inl e \<Rightarrow> Inl e
           | Inr proveedor \<Rightarrow>
               if falsy proveedor then Inl (HTTPException 404 ''Proveedor no encontrado'')
               else Inr \<lparr> status_code = 200, body = proveedor \<rparr>,
           w'))"

definition create_proveedor :: "'db backend \<Rightarrow> faults \<Rightarrow> ProveedorCreate \<Rightarrow> 'db world \<Rightarrow> (exc + response) \<times> 'db world" where
  "create_proveedor be f proveedor w =
     (if ProveedorCreate_missing proveedor then (Inl (HTTPException 400 ''Todos los campos son obligatorios''), w)
      else
     (case execute_query be f
             ''INSERT INTO proveedores (numero_identificacion, nombre_proveedor, contacto_principal, telefono_proveedor) VALUES (%s, %s, %s, %s)''
             (Some (ProveedorCreate_params proveedor)) False False True w of
        (r, w') \<Rightarrow>
          (case r of
             Inl e \<Rightarrow> Inl (HTTPException 500 ''Error interno del servidor'')
           | Inr proveedor_id \<Rightarrow>
               Inr \<lparr> status_code = 201,
                     body = PDict (AList.update ''id_proveedor'' proveedor_id (ProveedorCreate_dict proveedor)) \<rparr>,
           w')))"

definition update_proveedor :: "'db backend \<Rightarrow> faults \<Rightarrow> int \<Rightarrow> ProveedorCreate \<Rightarrow> 'db world \<Rightarrow> (exc + response) \<times> 'db world" where
  "update_proveedor be f id' proveedor w =
     (if ProveedorCreate_missing proveedor then (Inl (HTTPException 400 ''Todos los campos son obligatorios''), w)
      else
     (case execute_query be f
             ''UPDATE proveedores SET numero_identificacion=%s, nombre_proveedor=%s, contacto_principal=%s, telefono_proveedor=%s WHERE id_proveedor=%s''
             (Some (ProveedorCreate_params proveedor @ [PInt id'])) False False False w of
        (r, w') \<Rightarrow>
          (case r of
             Inl e \<Rightarrow> Inl e
           | Inr affected_rows \<Rightarrow>
               if eq_zero affected_rows then Inl (HTTPException 404 ''Proveedor no encontrado'')
               else Inr \<lparr> status_code = 200,
                          body = PDict (AList.update ''id_proveedor'' (PInt id') (ProveedorCreate_dict proveedor)) \<rparr>,
           w')))"

definition delete_proveedor :: "'db backend \<Rightarrow> faults \<Rightarrow> int \<Rightarrow> 'db world \<Rightarrow> (exc + response) \<times> 'db world" where
  "delete_proveedor be f id' w =
     (case execute_query be f ''DELETE FROM proveedores WHERE id_proveedor = %s'' (Some [PInt id']) False False False w of
        (r, w') \<Rightarrow>
          (case r of
             Inl e \<Rightarrow> Inl e
           | Inr affected_rows \<Rightarrow>
               if eq_zero affected_rows then Inl (HTTPException 404 ''Proveedor no encontrado'')
               else Inr \<lparr> status_code = 204, body = PNone \<rparr>,
           w'))"

subsection \<open>Routing\<close>

text \<open>The requests that the route decorators accept, with their method and path.\<close>

datatype request =
    GetEmpleados
  | GetEmpleado int
  | CreateEmpleado EmpleadoCreate
  | UpdateEmpleado int EmpleadoCreate
  | DeleteEmpleado int
  | GetClientes
  | GetCliente int
  | CreateCliente ClienteCreate
  | UpdateCliente int ClienteCreate
  | DeleteCliente int
  | GetProveedores
  | GetProveedor int
  | CreateProveedor ProveedorCreate
  | UpdateProveedor int ProveedorCreate
  | DeleteProveedor int

fun route :: "request \<Rightarrow> string \<times> string" where
  "route GetEmpleados = (''GET'', ''/empleados'')"
| "route (GetEmpleado i) = (''GET'', ''/empleados/{id}'')"
| "route (CreateEmpleado e) = (''POST'', ''/empleados'')"
| "route (UpdateEmpleado i e) = (''PUT'', ''/empleados/{id}'')"
| "route (DeleteEmpleado i) = (''DELETE'', ''/empleados/{id}'')"
| "route GetClientes = (''GET'', ''/clientes'')"
| "route (GetCliente i) = (''GET'', ''/clientes/{id}'')"
| "route (CreateCliente c) = (''POST'', ''/clientes'')"
| "route (UpdateCliente i c) = (''PUT'', ''/clientes/{id}'')"
| "route (DeleteCliente i) = (''DELETE'', ''/clientes/{id}'')"
| "route GetProveedores = (''GET'', ''/proveedores'')"
| "route (GetProveedor i) = (''GET'', ''/proveedores/{id}'')"
| "route (CreateProveedor p) = (''POST'', ''/proveedores'')"
| "route (UpdateProveedor i p) = (''PUT'', ''/proveedores/{id}'')"
| "route (DeleteProveedor i) = (''DELETE'', ''/proveedores/{id}'')"

fun handle :: "'db backend \<Rightarrow> faults \<Rightarrow> request \<Rightarrow> 'db world \<Rightarrow> (exc + response) \<times> 'db world" where
  "handle be f GetEmpleados w = get_empleados be f w"
| "handle be f (GetEmpleado i) w = get_empleado be f i w"
| "handle be f (CreateEmpleado e) w = create_empleado be f e w"
| "handle be f (UpdateEmpleado i e) w = update_empleado be f i e w"
| "handle be f (DeleteEmpleado i) w = delete_empleado be f i w"
| "handle be f GetClientes w = get_clientes be f w"
| "handle be f (GetCliente i) w = get_cliente be f i w"
| "handle be f (CreateCliente c) w = create_cliente be f c w"
| "handle be f (UpdateCliente i c) w = update_cliente be f i c w"
| "handle be f (DeleteCliente i) w = delete_cliente be f i w"
| "handle be f GetProveedores w = get_proveedores be f w"
| "handle be f (GetProveedor i) w = get_proveedor be f i w"
| "handle be f (CreateProveedor p) w = create_proveedor be f p w"
| "handle be f (UpdateProveedor i p) w = update_proveedor be f i p w"
| "handle be f (DeleteProveedor i) w = delete_proveedor be f i w"

section \<open>Observations on a request\<close>

text \<open>
  What a handler hands to the executor, read off the handlers: the statement text, the
  bound parameters and the selector flags of the single \<open>execute_query\<close> call, and whether
  the handler's own validation rejects the request before that call.
\<close>

fun rejected :: "request \<Rightarrow> bool" where
  "rejected (CreateCliente c) = ClienteCreate_missing c"
| "rejected (UpdateCliente i c) = ClienteCreate_missing c"
| "rejected (CreateProveedor p) = ProveedorCreate_missing p"
| "rejected (UpdateProveedor i p) = ProveedorCreate_missing p"
| "rejected r = False"

fun statement :: "request \<Rightarrow> string" where
  "statement GetEmpleados = ''SELECT * FROM empleados''"
| "statement (GetEmpleado i) = ''SELECT * FROM empleados WHERE id = %s''"
| "statement (CreateEmpleado e) =
     ''INSERT INTO empleados (nombre, puesto, salario) VALUES (%s, %s, %s)''"
| "statement (UpdateEmpleado i e) =
     ''UPDATE empleados SET nombre=%s, puesto=%s, salario=%s WHERE id=%s''"
| "statement (DeleteEmpleado i) = ''DELETE FROM empleados WHERE id = %s''"
| "statement GetClientes = ''SELECT * FROM clientes''"
| "statement (GetCliente i) = ''SELECT * FROM clientes WHERE id_cliente = %s''"
| "statement (CreateCliente c) =
     ''INSERT INTO clientes (numero_identificacion, nombre_cliente, telefono_cliente, email_cliente) VALUES (%s, %s, %s, %s)''"
| "statement (UpdateCliente i c) =
     ''UPDATE clientes SET numero_identificacion=%s, nombre_cliente=%s, telefono_cliente=%s, email_cliente=%s WHERE id_cliente=%s''"
| "statement (DeleteCliente i) = ''DELETE FROM clientes WHERE id_cliente = %s''"
| "statement GetProveedores = ''SELECT * FROM proveedores''"
| "statement (GetProveedor i) = ''SELECT * FROM proveedores WHERE id_proveedor = %s''"
| "statement (CreateProveedor p) =
     ''INSERT INTO proveedores (numero_identificacion, nombre_proveedor, contacto_principal, telefono_proveedor) VALUES (%s, %s, %s, %s)''"
| "statement (UpdateProveedor i p) =
     ''UPDATE proveedores SET numero_identificacion=%s, nombre_proveedor=%s, contacto_principal=%s, telefono_proveedor=%s WHERE id_proveedor=%s''"
| "statement (DeleteProveedor i) = ''DELETE FROM proveedores WHERE id_proveedor = %s''"

fun bound :: "request \<Rightarrow> pyval list option" where
  "bound GetEmpleados = None"
| "bound (GetEmpleado i) = Some [PInt i]"
| "bound (CreateEmpleado e) = Some (EmpleadoCreate_params e)"
| "bound (UpdateEmpleado i e) = Some (EmpleadoCreate_params e @ [PInt i])"
| "bound (DeleteEmpleado i) = Some [PInt i]"
| "bound GetClientes = None"
| "bound (GetCliente i) = Some [PInt i]"
| "bound (CreateCliente c) = Some (ClienteCreate_params c)"
| "bound (UpdateCliente i c) = Some (ClienteCreate_params c @ [PInt i])"
| "bound (DeleteCliente i) = Some [PInt i]"
| "bound GetProveedores = None"
| "bound (GetProveedor i) = Some [PInt i]"
| "bound (CreateProveedor p) = Some (ProveedorCreate_params p)"
| "bound (UpdateProveedor i p) = Some (ProveedorCreate_params p @ [PInt i])"
| "bound (DeleteProveedor i) = Some [PInt i]"

text \<open>The flags \<open>fetch_one\<close>, \<open>fetch_all\<close>, \<open>lastrowid\<close> of the call.\<close>

fun wants_one :: "request \<Rightarrow> bool" where
  "wants_one (GetEmpleado i) = True"
| "wants_one (GetCliente i) = True"
| "wants_one (GetProveedor i) = True"
| "wants_one r = False"

fun wants_all :: "request \<Rightarrow> bool" where
  "wants_all GetEmpleados = True"
| "wants_all GetClientes = True"
| "wants_all GetProveedores = True"
| "wants_all r = False"

fun wants_id :: "request \<Rightarrow> bool" where
  "wants_id (CreateEmpleado e) = True"
| "wants_id (CreateCliente c) = True"
| "wants_id (CreateProveedor p) = True"
| "wants_id r = False"

section \<open>Observations on a call of the executor\<close>

text \<open>The events that a call added to the trace: \<open>w\<close> before the call, \<open>w'\<close> after it.\<close>

definition events_of_call :: "'db world \<Rightarrow> 'db world \<Rightarrow> event list" where
  "events_of_call w w' = drop (length (trace w)) (trace w')"

text \<open>The call obtains a connection: the pool exists, is not exhausted, and
  \<open>get_connection\<close> does not raise.\<close>

definition acquires :: "faults \<Rightarrow> 'db world \<Rightarrow> bool" where
  "acquires f w =
     (case connection_pool w of
        None \<Rightarrow> False
      | Some p \<Rightarrow> get_connection_exc f = None \<and> available p \<noteq> 0)"

text \<open>The block reaches \<open>conn.commit()\<close>: the statement ran and no fetch flag is set.\<close>

definition reaches_commit ::
  "'db backend \<Rightarrow> faults \<Rightarrow> string \<Rightarrow> pyval list option \<Rightarrow> bool \<Rightarrow> bool \<Rightarrow> 'db \<Rightarrow> bool" where
  "reaches_commit be f query params fetch_one fetch_all db =
     (execute_exc f = None \<and> \<not> isl (be query (params_or_empty params) db)
      \<and> \<not> fetch_one \<and> \<not> fetch_all)"

definition block_events ::
  "'db backend \<Rightarrow> faults \<Rightarrow> string \<Rightarrow> pyval list option \<Rightarrow> bool \<Rightarrow> bool \<Rightarrow> 'db \<Rightarrow> event list" where
  "block_events be f query params fetch_one fetch_all db =
     Execute query (params_or_empty params) #
       (if reaches_commit be f query params fetch_one fetch_all db then [Commit] else [])"

definition call_events ::
  "'db backend \<Rightarrow> faults \<Rightarrow> string \<Rightarrow> pyval list option \<Rightarrow> bool \<Rightarrow> bool \<Rightarrow> 'db world \<Rightarrow> event list" where
  "call_events be f query params fetch_one fetch_all w =
     (if acquires f w then
        Acquired # (if cursor_exc f = None
                    then block_events be f query params fetch_one fetch_all (server_db w) else [])
          @ (if is_connected f then [Released] else [])
      else [])"

text \<open>The value that the selector flags pick from the cursor, in the order of the
  \<open>if\<close>/\<open>elif\<close> chain.\<close>

definition selected :: "bool \<Rightarrow> bool \<Rightarrow> bool \<Rightarrow> cursor \<Rightarrow> pyval" where
  "selected fetch_one fetch_all lastrowid_flag cur =
     (if fetch_one then (case rows cur of [] \<Rightarrow> PNone | r # rs \<Rightarrow> PDict r)
      else if fetch_all then PList (map PDict (rows cur))
      else if lastrowid_flag then PInt (lastrowid cur)
      else PInt (rowcount cur))"

section \<open>A reference database server\<close>

text \<open>
  Modelled from the spec: the backing relational store, that is the MySQL server behind the
  pool, which is not part of the repository. The executor and the handlers take the server
  as the parameter \<open>be\<close>; to state what a request does to the stored records, that
  parameter is instantiated with a small relational store that answers a statement with
  rows, the number of rows changed or the generated identifier of the last insert, as the
  specification describes the store. It understands the five statement forms the handlers
  issue, with \<open>%s\<close> placeholders:
  \<open>SELECT * FROM t\<close>, \<open>SELECT * FROM t WHERE c = %s\<close>,
  \<open>INSERT INTO t (c1, ..., cn) VALUES (%s, ..., %s)\<close>,
  \<open>UPDATE t SET c1=%s, ..., cn=%s WHERE c=%s\<close> and \<open>DELETE FROM t WHERE c = %s\<close>.
  A table has an auto-increment key column, the next key to hand out, and its rows; values
  are stored as they are given. The affected-row count of an \<open>UPDATE\<close> is the number of rows
  whose contents changed, as MySQL reports it by default.
\<close>

record table =
  pk :: string
  next_id :: int
  contents :: "row list"

type_synonym store = "string \<rightharpoonup> table"

datatype stmt =
    Select string "string option"
  | Insert string "string list"
  | Update string "string list" string
  | Delete string string

text \<open>Tokens: words separated by blanks; parentheses, commas and equality signs stand alone.\<close>

definition flush :: "string \<Rightarrow> string list \<Rightarrow> string list" where
  "flush word rest = (if word = [] then rest else word # rest)"

fun tokens :: "string \<Rightarrow> string \<Rightarrow> string list" where
  "tokens [] word = flush word []"
| "tokens (c # cs) word =
     (if c = CHR '' '' then flush word (tokens cs [])
      else if c \<in> set ''(),='' then flush word ([c] # tokens cs [])
      else tokens cs (word @ [c]))"

fun comma_separated :: "string list \<Rightarrow> string list option" where
  "comma_separated [] = None"
| "comma_separated [a] = (if a \<in> {'','', ''('', '')'', ''=''} then None else Some [a])"
| "comma_separated (a # k # rest) =
     (if k = '','' \<and> a \<notin> {'','', ''('', '')'', ''=''}
      then map_option (Cons a) (comma_separated rest) else None)"

fun assignments :: "string list \<Rightarrow> string list option" where
  "assignments [c, e, p] = (if e = ''='' \<and> p = ''%s'' then Some [c] else None)"
| "assignments (c # e # p # k # rest) =
     (if e = ''='' \<and> p = ''%s'' \<and> k = '',''
      then map_option (Cons c) (assignments rest) else None)"
| "assignments ts = None"

fun placeholders :: "nat \<Rightarrow> string list" where
  "placeholders 0 = []"
| "placeholders (Suc 0) = [''%s'']"
| "placeholders (Suc (Suc n)) = ''%s'' # '','' # placeholders (Suc n)"

definition where_clause :: "string list \<Rightarrow> string option" where
  "where_clause ts =
     (case ts of
        [w, c, e, p] \<Rightarrow> if w = ''WHERE'' \<and> e = ''='' \<and> p = ''%s'' then Some c else None
      | _ \<Rightarrow> None)"

definition parse_tokens :: "string list \<Rightarrow> stmt option" where
  "parse_tokens ts =
     (case ts of
        a # b # rest \<Rightarrow>
          if a = ''SELECT'' \<and> b = ''*'' then
            (case rest of
               [] \<Rightarrow> None
             | [fr] \<Rightarrow> None
             | [fr, t] \<Rightarrow> if fr = ''FROM'' then Some (Select t None) else None
             | fr # t # wh \<Rightarrow>
                 if fr = ''FROM'' then map_option (\<lambda>c. Select t (Some c)) (where_clause wh)
                 else None)
          else if a = ''INSERT'' \<and> b = ''INTO'' then
            (case rest of
               t # lp # rest2 \<Rightarrow>
                 if lp = ''('' then
                   (case comma_separated (takeWhile (\<lambda>x. x \<noteq> '')'') rest2) of
                      None \<Rightarrow> None
                    | Some cols \<Rightarrow>
                        if dropWhile (\<lambda>x. x \<noteq> '')'') rest2
                             = '')'' # ''VALUES'' # ''('' # placeholders (length cols) @ ['')'']
                        then Some (Insert t cols) else None)
                 else None
             | _ \<Rightarrow> None)
          else if a = ''UPDATE'' then
            (case rest of
               st # rest2 \<Rightarrow>
                 if st = ''SET'' then
                   (case assignments (takeWhile (\<lambda>x. x \<noteq> ''WHERE'') rest2) of
                      None \<Rightarrow> None
                    | Some cols \<Rightarrow>
                        map_option (Update b cols)
                          (where_clause (dropWhile (\<lambda>x. x \<noteq> ''WHERE'') rest2)))
                 else None
             | _ \<Rightarrow> None)
          else if a = ''DELETE'' \<and> b = ''FROM'' then
            (case rest of
               t # wh \<Rightarrow> map_option (Delete t) (where_clause wh)
             | _ \<Rightarrow> None)
          else None
      | _ \<Rightarrow> None)"

definition parse_sql :: "string \<Rightarrow> stmt option" where
  "parse_sql query = parse_tokens (tokens query [])"

text \<open>\<open>c = v\<close> in a \<open>WHERE\<close> clause: never true for \<open>NULL\<close>.\<close>

definition matches :: "string \<Rightarrow> pyval \<Rightarrow> row \<Rightarrow> bool" where
  "matches c v r = (v \<noteq> PNone \<and> map_of r c = Some v)"

definition assign :: "string list \<Rightarrow> pyval list \<Rightarrow> string \<Rightarrow> pyval \<Rightarrow> row \<Rightarrow> row" where
  "assign cols vals c v r = (if matches c v r then AList.updates cols vals r else r)"

text \<open>
  Error numbers: 1146 for a table that does not exist, \<open>-1\<close> for the driver's complaint
  about a number of parameters that does not fit the placeholders, 1064 for a statement
  outside the five forms.
\<close>

fun run_stmt :: "stmt \<Rightarrow> pyval list \<Rightarrow> store \<Rightarrow> exc + (cursor \<times> store)" where
  "run_stmt (Select t wh) ps db =
     (case db t of
        None \<Rightarrow> Inl (MySQLError 1146)
      | Some tb \<Rightarrow>
          (case wh of
             None \<Rightarrow>
               if ps = [] then Inr (\<lparr> rows = contents tb, rowcount = - 1, lastrowid = 0 \<rparr>, db)
               else Inl (MySQLError (- 1))
           | Some c \<Rightarrow>
               (case ps of
                  [v] \<Rightarrow> Inr (\<lparr> rows = filter (matches c v) (contents tb),
                                 rowcount = - 1, lastrowid = 0 \<rparr>, db)
                | _ \<Rightarrow> Inl (MySQLError (- 1)))))"
| "run_stmt (Insert t cols) ps db =
     (case db t of
        None \<Rightarrow> Inl (MySQLError 1146)
      | Some tb \<Rightarrow>
          if length ps \<noteq> length cols then Inl (MySQLError (- 1))
          else Inr (\<lparr> rows = [], rowcount = 1, lastrowid = next_id tb \<rparr>,
                    db(t \<mapsto> tb\<lparr> next_id := next_id tb + 1,
                                  contents := contents tb
                                    @ [(pk tb, PInt (next_id tb)) # zip cols ps] \<rparr>)))"
| "run_stmt (Update t cols c) ps db =
     (case db t of
        None \<Rightarrow> Inl (MySQLError 1146)
      | Some tb \<Rightarrow>
          if length ps \<noteq> Suc (length cols) then Inl (MySQLError (- 1))
          else Inr (\<lparr> rows = [],
                      rowcount = int (length (filter
                          (\<lambda>r. assign cols (butlast ps) c (last ps) r \<noteq> r) (contents tb))),
                      lastrowid = 0 \<rparr>,
                    db(t \<mapsto> tb\<lparr> contents :=
                                    map (assign cols (butlast ps) c (last ps)) (contents tb) \<rparr>)))"
| "run_stmt (Delete t c) ps db =
     (case db t of
        None \<Rightarrow> Inl (MySQLError 1146)
      | Some tb \<Rightarrow>
          (case ps of
             [v] \<Rightarrow> Inr (\<lparr> rows = [],
                            rowcount = int (length (filter (matches c v) (contents tb))),
                            lastrowid = 0 \<rparr>,
                          db(t \<mapsto> tb\<lparr> contents :=
                                          filter (\<lambda>r. \<not> matches c v r) (contents tb) \<rparr>))
           | _ \<Rightarrow> Inl (MySQLError (- 1))))"

definition reference_server :: "store backend" where
  "reference_server query ps db =
     (case parse_sql query of
        None \<Rightarrow> Inl (MySQLError 1064)
      | Some st \<Rightarrow> run_stmt st ps db)"

section \<open>Observations on requests against the reference server\<close>

text \<open>The row that an update or delete request addresses: table, key column and key.\<close>

fun target :: "request \<Rightarrow> (string \<times> string \<times> int) option" where
  "target (UpdateEmpleado i e) = Some (''empleados'', ''id'', i)"
| "target (DeleteEmpleado i) = Some (''empleados'', ''id'', i)"
| "target (UpdateCliente i c) = Some (''clientes'', ''id_cliente'', i)"
| "target (DeleteCliente i) = Some (''clientes'', ''id_cliente'', i)"
| "target (UpdateProveedor i p) = Some (''proveedores'', ''id_proveedor'', i)"
| "target (DeleteProveedor i) = Some (''proveedores'', ''id_proveedor'', i)"
| "target r = None"

text \<open>The table exists and none of its rows has the key \<open>i\<close> in column \<open>c\<close>.\<close>

definition absent :: "store \<Rightarrow> string \<Rightarrow> string \<Rightarrow> int \<Rightarrow> bool" where
  "absent db t c i =
     (case db t of
        None \<Rightarrow> False
      | Some tb \<Rightarrow> list_all (\<lambda>r. map_of r c \<noteq> Some (PInt i)) (contents tb))"

text \<open>The call obtains a connection and no driver call raises.\<close>

definition healthy :: "faults \<Rightarrow> 'db world \<Rightarrow> bool" where
  "healthy f w =
     (acquires f w \<and> cursor_exc f = None \<and> execute_exc f = None \<and> fetch_exc f = None
      \<and> commit_exc f = None \<and> cursor_close_exc f = None)"

text \<open>The table and key column of a create request, the fields it submits, and the request
  that reads a record of the same resource by its key.\<close>

fun creates :: "request \<Rightarrow> (string \<times> string) option" where
  "creates (CreateEmpleado e) = Some (''empleados'', ''id'')"
| "creates (CreateCliente c) = Some (''clientes'', ''id_cliente'')"
| "creates (CreateProveedor p) = Some (''proveedores'', ''id_proveedor'')"
| "creates r = None"

fun submitted :: "request \<Rightarrow> row" where
  "submitted (CreateEmpleado e) = EmpleadoCreate_dict e"
| "submitted (CreateCliente c) = ClienteCreate_dict c"
| "submitted (CreateProveedor p) = ProveedorCreate_dict p"
| "submitted r = []"

fun reader :: "request \<Rightarrow> int \<Rightarrow> request" where
  "reader (CreateEmpleado e) i = GetEmpleado i"
| "reader (CreateCliente c) i = GetCliente i"
| "reader (CreateProveedor p) i = GetProveedor i"
| "reader r i = r"

text \<open>The key that the table hands out next is not in use.\<close>

definition unused_next :: "table \<Rightarrow> bool" where
  "unused_next tb =
     list_all (\<lambda>r. map_of r (pk tb) \<noteq> Some (PInt (next_id tb))) (contents tb)"

section \<open>Concrete inputs\<close>

definition demo_cfg :: DBConfig where
  "demo_cfg = \<lparr> host = ''localhost'', user = ''app'', password = ''secret'', database = ''empresa'',
                port = 3306, ssl_disabled = True, pool_size = 10 \<rparr>"

definition demo_world :: "nat world" where
  "demo_world = \<lparr> db_config = demo_cfg,
                  connection_pool = Some \<lparr> p_name = ''fastapi_pool'', p_size = 3, available = 3 \<rparr>,
                  server_db = 0, trace = [] \<rparr>"

text \<open>A server that answers every statement with one row, and counts the statements.\<close>

definition demo_backend :: "nat backend" where
  "demo_backend query ps db =
     Inr (\<lparr> rows = [[(''id'', PInt 1)]], rowcount = 1, lastrowid = 7 \<rparr>, Suc db)"

text \<open>The connection is lost while the statement runs (error 2013), and a statement is
  rejected (error 1064) on a connection that stays up.\<close>

definition lost_connection :: faults where
  "lost_connection = no_faults \<lparr> execute_exc := Some (MySQLError 2013), is_connected := False \<rparr>"

definition failed_statement :: faults where
  "failed_statement = no_faults \<lparr> execute_exc := Some (MySQLError 1064) \<rparr>"

text \<open>Three servers at pool creation: one that always reports the connection limit, one
  that accepts at most three connections, one that cannot be reached (error 2003).\<close>

definition limit_reached :: pool_ctor where
  "limit_reached nm n params = Some (MySQLError 1226)"

definition accepts_small :: pool_ctor where
  "accepts_small nm n params = (if n \<le> 3 then None else Some (MySQLError 1226))"

definition unreachable :: pool_ctor where
  "unreachable nm n params = Some (MySQLError 2003)"

text \<open>Two employees whose fields are plain, one whose name looks like SQL, one without a
  name; a server that accepts every pool.\<close>

definition injection_attempt :: EmpleadoCreate where
  "injection_attempt = \<lparr> nombre = ''x); DROP TABLE empleados; --'', puesto = ''dev'',
                          salario = 1000 \<rparr>"

definition plain_empleado :: EmpleadoCreate where
  "plain_empleado = \<lparr> nombre = ''Ana'', puesto = ''dev'', salario = 1000 \<rparr>"

definition unnamed_empleado :: EmpleadoCreate where
  "unnamed_empleado = \<lparr> nombre = [], puesto = ''dev'', salario = 1000 \<rparr>"

definition accepts_all :: pool_ctor where
  "accepts_all nm n params = None"

text \<open>A store with one employee and no clients or suppliers, behind a pool of three
  connections; the client of the specification's scenario.\<close>

definition demo_store :: store where
  "demo_store =
     [''empleados'' \<mapsto> \<lparr> pk = ''id'', next_id = 2,
                           contents = [[(''id'', PInt 1), (''nombre'', PStr ''Ana''),
                                        (''puesto'', PStr ''dev''), (''salario'', PFloat 1000)]] \<rparr>,
      ''clientes'' \<mapsto> \<lparr> pk = ''id_cliente'', next_id = 1, contents = [] \<rparr>,
      ''proveedores'' \<mapsto> \<lparr> pk = ''id_proveedor'', next_id = 1, contents = [] \<rparr>]"

definition shop_world :: "store world" where
  "shop_world = \<lparr> db_config = demo_cfg,
                  connection_pool = Some \<lparr> p_name = ''fastapi_pool'', p_size = 3, available = 3 \<rparr>,
                  server_db = demo_store, trace = [] \<rparr>"

definition jane :: ClienteCreate where
  "jane = \<lparr> ClienteCreate.numero_identificacion = ''A1'', nombre_cliente = ''Jane'',
            telefono_cliente = ''555-0100'', email_cliente = None \<rparr>"


text \<open>A reader of decimal numerals for \<open>int\<close> on strings, and two environments: one that
  sets host, port, TLS flag and pool size, one whose port is not a number.\<close>

definition digit_value :: "char \<Rightarrow> int option" where
  "digit_value c = map_of (zip ''0123456789'' [0, 1, 2, 3, 4, 5, 6, 7, 8, 9]) c"

fun decimal_from :: "int \<Rightarrow> string \<Rightarrow> int option" where
  "decimal_from n [] = Some n"
| "decimal_from n (c # cs) =
     (case digit_value c of None \<Rightarrow> None | Some d \<Rightarrow> decimal_from (10 * n + d) cs)"

definition decimal :: "string \<Rightarrow> int option" where
  "decimal s = (if s = [] then None else decimal_from 0 s)"

definition staging_env :: environ where
  "staging_env = [''DB_HOST'' \<mapsto> ''db.internal'', ''DB_PORT'' \<mapsto> ''3307'',
                  ''SSL_DISABLED'' \<mapsto> ''False'', ''DB_POOL_SIZE'' \<mapsto> ''4'']"

definition broken_env :: environ where
  "broken_env = [''DB_PORT'' \<mapsto> ''mysql'']"

section \<open>Verified properties\<close>

subsection \<open>Configuration\<close>

text \<open>
  C10: the TLS-disabled flag of a loaded configuration is true exactly when the variable
  \<open>SSL_DISABLED\<close> is unset (the default is the string \<open>True\<close>) or is the string \<open>True\<close>;
  when the flag is false the connection parameters have the key \<open>ssl_ca\<close> with the value
  \<open>/etc/ssl/cert.pem\<close>, and when it is true they have no key \<open>ssl_ca\<close>.
\<close>

theorem ssl_flag_and_ssl_ca:
  assumes "DBConfig_init py_int env = Inr cfg"
  shows "(ssl_disabled cfg \<longleftrightarrow> (env ''SSL_DISABLED'' = None \<or> env ''SSL_DISABLED'' = Some ''True''))
       \<and> (\<not> ssl_disabled cfg \<longrightarrow>
            map_of (connection_params cfg) ''ssl_ca'' = Some (PStr ''/etc/ssl/cert.pem''))
       \<and> (ssl_disabled cfg \<longrightarrow> map_of (connection_params cfg) ''ssl_ca'' = None)"
proof -
  have flag: "ssl_disabled cfg = (getenv env ''SSL_DISABLED'' ''True'' = ''True'')"
    using assms by (auto simp: DBConfig_init_def split: sum.splits)
  have env_side: "(getenv env ''SSL_DISABLED'' ''True'' = ''True'')
      \<longleftrightarrow> (env ''SSL_DISABLED'' = None \<or> env ''SSL_DISABLED'' = Some ''True'')"
    by (simp add: getenv_def split: option.splits)
  have params: "map_of (connection_params cfg) ''ssl_ca''
      = (if ssl_disabled cfg then None else Some (PStr ''/etc/ssl/cert.pem''))"
    by (simp add: connection_params_def)
  show ?thesis using flag env_side params by simp
qed

text \<open>The values \<open>true\<close> and \<open>1\<close> give a false flag and the key; no value gives a true flag.\<close>

theorem ssl_flag_and_ssl_ca_witness:
  "(\<exists>cfg. DBConfig_init (\<lambda>s. None) [''SSL_DISABLED'' \<mapsto> ''true''] = Inr cfg
        \<and> \<not> ssl_disabled cfg
        \<and> map_of (connection_params cfg) ''ssl_ca'' = Some (PStr ''/etc/ssl/cert.pem''))
   \<and> (\<exists>cfg. DBConfig_init (\<lambda>s. None) [''SSL_DISABLED'' \<mapsto> ''1''] = Inr cfg
        \<and> \<not> ssl_disabled cfg
        \<and> map_of (connection_params cfg) ''ssl_ca'' = Some (PStr ''/etc/ssl/cert.pem''))
   \<and> (\<exists>cfg. DBConfig_init (\<lambda>s. None) Map.empty = Inr cfg
        \<and> ssl_disabled cfg
        \<and> map_of (connection_params cfg) ''ssl_ca'' = None)"
proof -
  obtain c1 where h1: "DBConfig_init (\<lambda>s. None) [''SSL_DISABLED'' \<mapsto> ''true''] = Inr c1"
    by (simp add: DBConfig_init_def getenv_int_def)
  obtain c2 where h2: "DBConfig_init (\<lambda>s. None) [''SSL_DISABLED'' \<mapsto> ''1''] = Inr c2"
    by (simp add: DBConfig_init_def getenv_int_def)
  obtain c3 where h3: "DBConfig_init (\<lambda>s. None) Map.empty = Inr c3"
    by (simp add: DBConfig_init_def getenv_int_def)
  from ssl_flag_and_ssl_ca [OF h1] ssl_flag_and_ssl_ca [OF h2] ssl_flag_and_ssl_ca [OF h3] h1 h2 h3
  show ?thesis by simp
qed

subsection \<open>What a call of the executor does\<close>

text \<open>The trace, the pool, the configuration, the database and the result of a call, in
  closed form.\<close>

lemmas block_defs = query_block_def cursor_execute_def conn_commit_def record_ev_def Let_def

lemma query_block_pool:
  "connection_pool (snd (query_block be f q ps fo fa lr w)) = connection_pool w"
  by (simp add: block_defs split: option.splits sum.splits prod.splits)

lemma query_block_config:
  "db_config (snd (query_block be f q ps fo fa lr w)) = db_config w"
  by (simp add: block_defs split: option.splits sum.splits prod.splits)

lemma query_block_trace:
  "trace (snd (query_block be f q ps fo fa lr w))
     = trace w @ block_events be f q ps fo fa (server_db w)"
  by (simp add: block_defs block_events_def reaches_commit_def
           split: option.splits sum.splits prod.splits)

lemma query_block_server_db:
  "server_db (snd (query_block be f q ps fo fa lr w)) =
     (if reaches_commit be f q ps fo fa (server_db w) \<and> commit_exc f = None
      then snd (projr (be q (params_or_empty ps) (server_db w)))
      else server_db w)"
  by (simp add: block_defs reaches_commit_def split: option.splits sum.splits prod.splits)

lemmas wrapper_defs = execute_query_def get_db_cursor_def get_db_connection_def
  get_connection_def conn_close_def record_ev_def acquires_def

lemma execute_query_trace:
  "trace (snd (execute_query be f q ps fo fa lr w)) = trace w @ call_events be f q ps fo fa w"
  by (simp add: wrapper_defs call_events_def case_prod_beta query_block_trace
           split: option.splits)

lemma execute_query_events:
  "events_of_call w (snd (execute_query be f q ps fo fa lr w)) = call_events be f q ps fo fa w"
  by (simp add: events_of_call_def execute_query_trace)

lemma execute_query_config:
  "db_config (snd (execute_query be f q ps fo fa lr w)) = db_config w"
  by (simp add: wrapper_defs case_prod_beta query_block_config split: option.splits)

lemma execute_query_pool:
  "connection_pool (snd (execute_query be f q ps fo fa lr w)) =
     (if acquires f w \<and> \<not> is_connected f
      then map_option (\<lambda>p. p\<lparr> available := available p - 1 \<rparr>) (connection_pool w)
      else connection_pool w)"
  by (simp add: wrapper_defs case_prod_beta query_block_pool split: option.splits)

lemma execute_query_server_db:
  "server_db (snd (execute_query be f q ps fo fa lr w)) =
     (if acquires f w \<and> cursor_exc f = None
         \<and> reaches_commit be f q ps fo fa (server_db w) \<and> commit_exc f = None
      then snd (projr (be q (params_or_empty ps) (server_db w)))
      else server_db w)"
  by (simp add: wrapper_defs case_prod_beta query_block_server_db split: option.splits)

lemma query_block_result:
  "fst (query_block be f q ps fo fa lr w) =
     (case execute_exc f of
        Some e \<Rightarrow> Inl e
      | None \<Rightarrow>
         (case be q (params_or_empty ps) (server_db w) of
            Inl e \<Rightarrow> Inl e
          | Inr (cur, db') \<Rightarrow>
              (case (if fo \<or> fa then fetch_exc f else commit_exc f) of
                 Some e \<Rightarrow> Inl e
               | None \<Rightarrow> Inr (selected fo fa lr cur))))"
  by (cases fo; cases fa;
      simp add: block_defs selected_def fetchone_def fetchall_def
           split: option.splits sum.splits prod.splits)

lemma execute_query_result:
  "fst (execute_query be f q ps fo fa lr w) =
     (case connection_pool w of
        None \<Rightarrow> Inl (RuntimeError ''El pool de conexiones no esta inicializado'')
      | Some p \<Rightarrow>
         (case get_connection_exc f of
            Some e \<Rightarrow> Inl e
          | None \<Rightarrow>
              if available p = 0 then Inl (MySQLError (- 1))
              else (case cursor_exc f of
                      Some e \<Rightarrow> Inl e
                    | None \<Rightarrow>
                       (case cursor_close_exc f of
                          Some e \<Rightarrow> Inl e
                        | None \<Rightarrow>
                           (case execute_exc f of
                              Some e \<Rightarrow> Inl e
                            | None \<Rightarrow>
                               (case be q (params_or_empty ps) (server_db w) of
                                  Inl e \<Rightarrow> Inl e
                                | Inr (cur, db') \<Rightarrow>
                                   (case (if fo \<or> fa then fetch_exc f else commit_exc f) of
                                      Some e \<Rightarrow> Inl e
                                    | None \<Rightarrow> Inr (selected fo fa lr cur))))))))"
  by (cases fo; cases fa;
      simp add: wrapper_defs case_prod_beta query_block_result
           split: option.splits sum.splits prod.splits)

lemma execute_query_returns:
  assumes "fst (execute_query be f q ps fo fa lr w) = Inr v"
  shows "acquires f w \<and> cursor_exc f = None \<and> cursor_close_exc f = None \<and> execute_exc f = None
       \<and> (if fo \<or> fa then fetch_exc f else commit_exc f) = None
       \<and> (\<exists>cur db'. be q (params_or_empty ps) (server_db w) = Inr (cur, db')
             \<and> v = selected fo fa lr cur)"
  using assms unfolding execute_query_result acquires_def
  by (cases fo; cases fa; simp split: option.splits sum.splits prod.splits if_splits)

subsection \<open>Release of the connection\<close>

text \<open>
  C1 as stated fails: when the connection does not answer \<open>is_connected()\<close> at the end of
  the block, \<open>conn.close()\<close> is skipped. A call whose statement fails on a lost connection
  takes one connection out of a pool of three and leaves two.
\<close>

theorem release_counterexample:
  "isl (fst (execute_query demo_backend lost_connection ''DELETE FROM empleados WHERE id = %s''
              (Some [PInt 1]) False False False demo_world))
   \<and> map_option available (connection_pool demo_world) = Some 3
   \<and> map_option available (connection_pool (snd (execute_query demo_backend lost_connection
        ''DELETE FROM empleados WHERE id = %s'' (Some [PInt 1]) False False False demo_world))) = Some 2
   \<and> count_list (events_of_call demo_world (snd (execute_query demo_backend lost_connection
        ''DELETE FROM empleados WHERE id = %s'' (Some [PInt 1]) False False False demo_world))) Acquired = 1
   \<and> count_list (events_of_call demo_world (snd (execute_query demo_backend lost_connection
        ''DELETE FROM empleados WHERE id = %s'' (Some [PInt 1]) False False False demo_world))) Released = 0"
  by (simp add: execute_query_result execute_query_pool execute_query_events call_events_def
        block_events_def reaches_commit_def acquires_def demo_world_def lost_connection_def
        no_faults_def)

text \<open>
  C1, amended: on every exit path of \<open>execute_query\<close> on which the connection answers
  \<open>is_connected()\<close> (success, a statement error, a fetch or commit error, an error of
  \<open>cursor.close()\<close>), the number of available connections of the pool after the call is
  the number before it, and the connection is released as often as it was acquired: once
  when the call obtained a connection, never otherwise.
\<close>

theorem release_when_connected:
  assumes "is_connected f"
  shows "map_option available (connection_pool (snd (execute_query be f q ps fo fa lr w)))
           = map_option available (connection_pool w)
       \<and> count_list (events_of_call w (snd (execute_query be f q ps fo fa lr w))) Released
           = count_list (events_of_call w (snd (execute_query be f q ps fo fa lr w))) Acquired
       \<and> count_list (events_of_call w (snd (execute_query be f q ps fo fa lr w))) Acquired
           = (if acquires f w then 1 else 0)"
  using assms
  by (simp add: execute_query_events execute_query_pool call_events_def block_events_def)

text \<open>A rejected statement on a connection that stays up: the call fails, the pool still has
  its three connections, and the connection was released once.\<close>

theorem release_when_connected_witness:
  "is_connected failed_statement
   \<and> isl (fst (execute_query demo_backend failed_statement ''DELETE FROM empleados WHERE id = %s''
              (Some [PInt 1]) False False False demo_world))
   \<and> map_option available (connection_pool (snd (execute_query demo_backend failed_statement
        ''DELETE FROM empleados WHERE id = %s'' (Some [PInt 1]) False False False demo_world))) = Some 3
   \<and> count_list (events_of_call demo_world (snd (execute_query demo_backend failed_statement
        ''DELETE FROM empleados WHERE id = %s'' (Some [PInt 1]) False False False demo_world))) Released = 1"
proof -
  have c: "is_connected failed_statement"
    by (simp add: failed_statement_def no_faults_def)
  have e: "isl (fst (execute_query demo_backend failed_statement
              ''DELETE FROM empleados WHERE id = %s'' (Some [PInt 1]) False False False demo_world))"
    by (simp add: execute_query_result) (simp add: demo_world_def failed_statement_def no_faults_def)
  have a: "map_option available (connection_pool demo_world) = Some 3"
    by (simp add: demo_world_def)
  have q: "acquires failed_statement demo_world"
    by (simp add: acquires_def demo_world_def failed_statement_def no_faults_def)
  note r = release_when_connected [OF c, of demo_backend "''DELETE FROM empleados WHERE id = %s''"
         "Some [PInt 1]" False False False demo_world]
  from r q have n: "count_list (events_of_call demo_world (snd (execute_query demo_backend
        failed_statement ''DELETE FROM empleados WHERE id = %s'' (Some [PInt 1]) False False False
        demo_world))) Released = 1"
    by simp
  from r a have p: "map_option available (connection_pool (snd (execute_query demo_backend
        failed_statement ''DELETE FROM empleados WHERE id = %s'' (Some [PInt 1]) False False False
        demo_world))) = Some 3"
    by simp
  from c e p n show ?thesis by blast
qed

subsection \<open>Result shapes and commits\<close>

text \<open>
  C3: when every driver call of \<open>execute_query\<close> succeeds the call returns, by the chain of
  its flags: with \<open>fetch_one\<close> the first fetched row as a dictionary, or \<open>None\<close> when no row
  matched; otherwise with \<open>fetch_all\<close> the list of the rows, possibly empty; otherwise
  with \<open>lastrowid\<close> the last generated identifier; otherwise the affected-row count. Whenever
  the call returns a value, that value is the one above, \<open>conn.commit()\<close> was called once
  in the last two branches, making the statement's effect the committed contents, and not
  at all in the fetch branches. With a fetch flag no call ever commits.
\<close>

theorem execute_query_selector:
  "(acquires f w \<and> cursor_exc f = None \<and> execute_exc f = None \<and> fetch_exc f = None
      \<and> commit_exc f = None \<and> cursor_close_exc f = None
      \<and> be q (params_or_empty ps) (server_db w) = Inr (cur, db')
    \<longrightarrow> fst (execute_query be f q ps fo fa lr w) =
          Inr (if fo then (case rows cur of [] \<Rightarrow> PNone | r # rs \<Rightarrow> PDict r)
               else if fa then PList (map PDict (rows cur))
               else if lr then PInt (lastrowid cur)
               else PInt (rowcount cur)))
   \<and> (fst (execute_query be f q ps fo fa lr w) = Inr v \<longrightarrow>
         (\<exists>cur db'. be q (params_or_empty ps) (server_db w) = Inr (cur, db')
            \<and> v = (if fo then (case rows cur of [] \<Rightarrow> PNone | r # rs \<Rightarrow> PDict r)
                    else if fa then PList (map PDict (rows cur))
                    else if lr then PInt (lastrowid cur)
                    else PInt (rowcount cur))
            \<and> count_list (events_of_call w (snd (execute_query be f q ps fo fa lr w))) Commit
                 = (if fo \<or> fa then 0 else 1)
            \<and> server_db (snd (execute_query be f q ps fo fa lr w))
                 = (if fo \<or> fa then server_db w else db')))
   \<and> (fo \<or> fa \<longrightarrow>
         count_list (events_of_call w (snd (execute_query be f q ps fo fa lr w))) Commit = 0
         \<and> server_db (snd (execute_query be f q ps fo fa lr w)) = server_db w)"
proof (intro conjI impI)
  assume h: "acquires f w \<and> cursor_exc f = None \<and> execute_exc f = None \<and> fetch_exc f = None
      \<and> commit_exc f = None \<and> cursor_close_exc f = None
      \<and> be q (params_or_empty ps) (server_db w) = Inr (cur, db')"
  then show "fst (execute_query be f q ps fo fa lr w) =
          Inr (if fo then (case rows cur of [] \<Rightarrow> PNone | r # rs \<Rightarrow> PDict r)
               else if fa then PList (map PDict (rows cur))
               else if lr then PInt (lastrowid cur)
               else PInt (rowcount cur))"
    by (auto simp: execute_query_result acquires_def selected_def split: option.splits)
next
  assume r: "fst (execute_query be f q ps fo fa lr w) = Inr v"
  from execute_query_returns [OF r]
  obtain cur db' where
    a: "acquires f w" "cursor_exc f = None" "execute_exc f = None"
       "(if fo \<or> fa then fetch_exc f else commit_exc f) = None"
    and b: "be q (params_or_empty ps) (server_db w) = Inr (cur, db')"
    and v: "v = selected fo fa lr cur"
    by blast
  have c: "count_list (events_of_call w (snd (execute_query be f q ps fo fa lr w))) Commit
                 = (if fo \<or> fa then 0 else 1)"
    using a b by (simp add: execute_query_events call_events_def block_events_def reaches_commit_def)
  have d: "server_db (snd (execute_query be f q ps fo fa lr w))
                 = (if fo \<or> fa then server_db w else db')"
    using a b by (auto simp: execute_query_server_db reaches_commit_def)
  from b v c d
  show "\<exists>cur db'. be q (params_or_empty ps) (server_db w) = Inr (cur, db')
            \<and> v = (if fo then (case rows cur of [] \<Rightarrow> PNone | r # rs \<Rightarrow> PDict r)
                    else if fa then PList (map PDict (rows cur))
                    else if lr then PInt (lastrowid cur)
                    else PInt (rowcount cur))
            \<and> count_list (events_of_call w (snd (execute_query be f q ps fo fa lr w))) Commit
                 = (if fo \<or> fa then 0 else 1)
            \<and> server_db (snd (execute_query be f q ps fo fa lr w))
                 = (if fo \<or> fa then server_db w else db')"
    unfolding selected_def by blast
next
  assume "fo \<or> fa"
  then show "count_list (events_of_call w (snd (execute_query be f q ps fo fa lr w))) Commit = 0"
    by (simp add: execute_query_events call_events_def block_events_def reaches_commit_def)
next
  assume "fo \<or> fa"
  then show "server_db (snd (execute_query be f q ps fo fa lr w)) = server_db w"
    by (auto simp: execute_query_server_db reaches_commit_def)
qed

text \<open>A single-row fetch returns the row without a commit; a statement without flags returns
  the row count after one commit.\<close>

theorem execute_query_selector_witness:
  "fst (execute_query demo_backend no_faults ''SELECT * FROM empleados WHERE id = %s''
          (Some [PInt 1]) True False False demo_world) = Inr (PDict [(''id'', PInt 1)])
   \<and> count_list (events_of_call demo_world (snd (execute_query demo_backend no_faults
          ''SELECT * FROM empleados WHERE id = %s'' (Some [PInt 1]) True False False demo_world)))
        Commit = 0
   \<and> fst (execute_query demo_backend no_faults ''DELETE FROM empleados WHERE id = %s''
          (Some [PInt 1]) False False False demo_world) = Inr (PInt 1)
   \<and> count_list (events_of_call demo_world (snd (execute_query demo_backend no_faults
          ''DELETE FROM empleados WHERE id = %s'' (Some [PInt 1]) False False False demo_world)))
        Commit = 1"
proof -
  let ?c = "\<lparr> rows = [[(''id'', PInt 1)]], rowcount = 1, lastrowid = 7 \<rparr>"
  let ?sel = "''SELECT * FROM empleados WHERE id = %s''"
  let ?del = "''DELETE FROM empleados WHERE id = %s''"
  have a: "acquires no_faults demo_world \<and> cursor_exc no_faults = None
      \<and> execute_exc no_faults = None \<and> fetch_exc no_faults = None
      \<and> commit_exc no_faults = None \<and> cursor_close_exc no_faults = None"
    by (simp add: acquires_def demo_world_def no_faults_def)
  have b1: "demo_backend ?sel (params_or_empty (Some [PInt 1])) (server_db demo_world)
      = Inr (?c, Suc 0)"
    by (simp add: demo_backend_def demo_world_def)
  have b2: "demo_backend ?del (params_or_empty (Some [PInt 1])) (server_db demo_world)
      = Inr (?c, Suc 0)"
    by (simp add: demo_backend_def demo_world_def)
  note s1 = execute_query_selector [of no_faults demo_world demo_backend ?sel "Some [PInt 1]"
      ?c "Suc 0" True False False "PDict [(''id'', PInt 1)]"]
  note s2 = execute_query_selector [of no_faults demo_world demo_backend ?del "Some [PInt 1]"
      ?c "Suc 0" False False False "PInt 1"]
  have one: "fst (execute_query demo_backend no_faults ?sel (Some [PInt 1]) True False False
      demo_world) = Inr (PDict [(''id'', PInt 1)])"
    using s1 [THEN conjunct1] a b1 by simp
  have nocommit: "count_list (events_of_call demo_world (snd (execute_query demo_backend no_faults
      ?sel (Some [PInt 1]) True False False demo_world))) Commit = 0"
    using s1 [THEN conjunct2, THEN conjunct2] by simp
  have cnt: "fst (execute_query demo_backend no_faults ?del (Some [PInt 1]) False False False
      demo_world) = Inr (PInt 1)"
    using s2 [THEN conjunct1] a b2 by simp
  have commit: "count_list (events_of_call demo_world (snd (execute_query demo_backend no_faults
      ?del (Some [PInt 1]) False False False demo_world))) Commit = 1"
    using s2 [THEN conjunct2, THEN conjunct1] cnt by auto
  from one nocommit cnt commit show ?thesis by blast
qed

subsection \<open>Precedence of the selector flags\<close>

lemma query_block_fetch_one:
  "query_block be f q ps True fa lr = query_block be f q ps True False False"
  by (rule ext) (simp add: query_block_def split: prod.splits sum.splits)

lemma query_block_fetch_all:
  "query_block be f q ps False True lr = query_block be f q ps False True False"
  by (rule ext) (simp add: query_block_def split: prod.splits sum.splits)

text \<open>
  C9: the flags are resolved in the order \<open>fetch_one\<close>, \<open>fetch_all\<close>, \<open>lastrowid\<close>,
  affected count: a call with \<open>fetch_one\<close> is the call with \<open>fetch_one\<close> alone whatever the
  other flags are, a call with \<open>fetch_all\<close> and without \<open>fetch_one\<close> is the call with
  \<open>fetch_all\<close> alone, a call with \<open>lastrowid\<close> alone that returns a value returns the last
  generated identifier, and no call with \<open>fetch_one\<close> or \<open>fetch_all\<close> calls \<open>conn.commit()\<close>.
\<close>

theorem selector_precedence:
  "execute_query be f q ps True fa lr w = execute_query be f q ps True False False w
   \<and> execute_query be f q ps False True lr w = execute_query be f q ps False True False w
   \<and> (fst (execute_query be f q ps False False True w) = Inr v \<longrightarrow>
         (\<exists>cur db'. be q (params_or_empty ps) (server_db w) = Inr (cur, db')
            \<and> v = PInt (lastrowid cur)))
   \<and> (fo \<or> fa \<longrightarrow>
         Commit \<notin> set (events_of_call w (snd (execute_query be f q ps fo fa lr w))))"
proof (intro conjI impI)
  show "execute_query be f q ps True fa lr w = execute_query be f q ps True False False w"
    unfolding execute_query_def
    by (rule arg_cong [where f = "\<lambda>b. get_db_cursor f b w"]) (rule query_block_fetch_one)
  show "execute_query be f q ps False True lr w = execute_query be f q ps False True False w"
    unfolding execute_query_def
    by (rule arg_cong [where f = "\<lambda>b. get_db_cursor f b w"]) (rule query_block_fetch_all)
next
  assume "fst (execute_query be f q ps False False True w) = Inr v"
  from execute_query_returns [OF this]
  show "\<exists>cur db'. be q (params_or_empty ps) (server_db w) = Inr (cur, db')
            \<and> v = PInt (lastrowid cur)"
    by (simp add: selected_def)
next
  assume "fo \<or> fa"
  then show "Commit \<notin> set (events_of_call w (snd (execute_query be f q ps fo fa lr w)))"
    by (simp add: execute_query_events call_events_def block_events_def reaches_commit_def)
qed

text \<open>\<open>execute_query(q, p, fetch_one=True, lastrowid=True)\<close> on an insert is the single-row
  fetch: it returns the row, does not commit, and the committed contents stay as they were.\<close>

theorem selector_precedence_witness:
  "execute_query demo_backend no_faults ''INSERT INTO t (c) VALUES (%s)'' (Some [PInt 5])
       True False True demo_world
     = execute_query demo_backend no_faults ''INSERT INTO t (c) VALUES (%s)'' (Some [PInt 5])
       True False False demo_world
   \<and> fst (execute_query demo_backend no_faults ''INSERT INTO t (c) VALUES (%s)'' (Some [PInt 5])
       True False True demo_world) = Inr (PDict [(''id'', PInt 1)])
   \<and> Commit \<notin> set (events_of_call demo_world (snd (execute_query demo_backend no_faults
       ''INSERT INTO t (c) VALUES (%s)'' (Some [PInt 5]) True False True demo_world)))
   \<and> server_db (snd (execute_query demo_backend no_faults
       ''INSERT INTO t (c) VALUES (%s)'' (Some [PInt 5]) True False True demo_world)) = 0"
proof -
  let ?q = "''INSERT INTO t (c) VALUES (%s)''"
  note p = selector_precedence [of demo_backend no_faults ?q "Some [PInt 5]" False True
      demo_world "PInt 7" True]
  have same: "execute_query demo_backend no_faults ?q (Some [PInt 5]) True False True demo_world
     = execute_query demo_backend no_faults ?q (Some [PInt 5]) True False False demo_world"
    using p by blast
  have nocommit: "Commit \<notin> set (events_of_call demo_world (snd (execute_query demo_backend
      no_faults ?q (Some [PInt 5]) True False True demo_world)))"
    using p by blast
  have val: "fst (execute_query demo_backend no_faults ?q (Some [PInt 5]) True False True
      demo_world) = Inr (PDict [(''id'', PInt 1)])"
    by (simp add: execute_query_result selected_def demo_backend_def demo_world_def no_faults_def)
  have db: "server_db (snd (execute_query demo_backend no_faults ?q (Some [PInt 5])
      True False True demo_world)) = 0"
    by (simp add: execute_query_server_db reaches_commit_def demo_world_def)
  from same nocommit val db show ?thesis by blast
qed

subsection \<open>Creation of the pool\<close>

text \<open>
  C2 as stated fails: the reduced size is \<open>min(3, pool_size - 2)\<close>, not
  \<open>max(pool_size - 2, 1)\<close>. With a pool size of 10 the retry asks for 3 connections, not 8.
\<close>

theorem reduced_size_counterexample:
  "fst (create_pool limit_reached demo_cfg)
     = [(''fastapi_pool'', 10), (''fastapi_pool_reduced'', 3)]
   \<and> fst (create_pool limit_reached demo_cfg)
     \<noteq> [(''fastapi_pool'', 10), (''fastapi_pool_reduced'', max (pool_size demo_cfg - 2) 1)]"
  by (simp add: create_pool_def MySQLConnectionPool_def limit_reached_def demo_cfg_def
        ER_USER_LIMIT_REACHED_def)

text \<open>
  C2, amended: if the first creation fails with the server's connection-limit error, the
  pool is created again exactly once, under the name \<open>fastapi_pool_reduced\<close>, and for a
  configured size of at least 3 with the size \<open>min(3, pool_size - 2)\<close>, which is at least 1;
  if that retry fails too the result is an exception, and if it succeeds the pool is the
  reduced one. A first failure with any other cause is an exception at once, after the
  single attempt. A first attempt that succeeds gives the pool of the configured size.
\<close>

theorem create_pool_retry:
  "(ctor ''fastapi_pool'' (pool_size cfg) (connection_params cfg)
        = Some (MySQLError ER_USER_LIMIT_REACHED) \<longrightarrow>
      map fst (fst (create_pool ctor cfg)) = [''fastapi_pool'', ''fastapi_pool_reduced'']
      \<and> snd (hd (fst (create_pool ctor cfg))) = pool_size cfg
      \<and> (3 \<le> pool_size cfg \<longrightarrow>
           snd (last (fst (create_pool ctor cfg))) = min 3 (pool_size cfg - 2)
           \<and> 1 \<le> snd (last (fst (create_pool ctor cfg))))
      \<and> (ctor ''fastapi_pool_reduced'' (snd (last (fst (create_pool ctor cfg))))
              (connection_params cfg) \<noteq> None \<longrightarrow>
           isl (snd (create_pool ctor cfg)))
      \<and> (ctor ''fastapi_pool_reduced'' (snd (last (fst (create_pool ctor cfg))))
              (connection_params cfg) = None \<longrightarrow>
           snd (create_pool ctor cfg)
             = Inr \<lparr> p_name = ''fastapi_pool_reduced'',
                     p_size = snd (last (fst (create_pool ctor cfg))),
                     available = nat (snd (last (fst (create_pool ctor cfg)))) \<rparr>))
   \<and> (ctor ''fastapi_pool'' (pool_size cfg) (connection_params cfg) = Some e
        \<and> e \<noteq> MySQLError ER_USER_LIMIT_REACHED \<longrightarrow>
      fst (create_pool ctor cfg) = [(''fastapi_pool'', pool_size cfg)]
      \<and> isl (snd (create_pool ctor cfg)))
   \<and> (ctor ''fastapi_pool'' (pool_size cfg) (connection_params cfg) = None \<longrightarrow>
      fst (create_pool ctor cfg) = [(''fastapi_pool'', pool_size cfg)]
      \<and> snd (create_pool ctor cfg)
           = Inr \<lparr> p_name = ''fastapi_pool'', p_size = pool_size cfg,
                   available = nat (pool_size cfg) \<rparr>)"
  by (auto simp: create_pool_def MySQLConnectionPool_def Let_def
           split: option.splits sum.splits exc.splits)

text \<open>Size 10 against a server at its limit; against a server that takes three connections;
  against a server that cannot be reached; size 3 accepted at once.\<close>

theorem create_pool_retry_witness:
  "fst (create_pool limit_reached demo_cfg)
      = [(''fastapi_pool'', 10), (''fastapi_pool_reduced'', 3)]
   \<and> isl (snd (create_pool limit_reached demo_cfg))
   \<and> fst (create_pool accepts_small demo_cfg)
      = [(''fastapi_pool'', 10), (''fastapi_pool_reduced'', 3)]
   \<and> snd (create_pool accepts_small demo_cfg)
      = Inr \<lparr> p_name = ''fastapi_pool_reduced'', p_size = 3, available = 3 \<rparr>
   \<and> fst (create_pool unreachable demo_cfg) = [(''fastapi_pool'', 10)]
   \<and> isl (snd (create_pool unreachable demo_cfg))
   \<and> fst (create_pool accepts_small (demo_cfg \<lparr> pool_size := 3 \<rparr>)) = [(''fastapi_pool'', 3)]
   \<and> snd (create_pool accepts_small (demo_cfg \<lparr> pool_size := 3 \<rparr>))
      = Inr \<lparr> p_name = ''fastapi_pool'', p_size = 3, available = 3 \<rparr>"
proof -
  have sz: "pool_size demo_cfg = 10" by (simp add: demo_cfg_def)
  have l1: "limit_reached ''fastapi_pool'' (pool_size demo_cfg) (connection_params demo_cfg)
      = Some (MySQLError ER_USER_LIMIT_REACHED)"
    by (simp add: limit_reached_def ER_USER_LIMIT_REACHED_def)
  have l2: "\<And>n. limit_reached ''fastapi_pool_reduced'' n (connection_params demo_cfg) \<noteq> None"
    by (simp add: limit_reached_def)
  note a = create_pool_retry [of limit_reached demo_cfg "MySQLError 2003", THEN conjunct1,
      rule_format, OF l1]
  have a1: "fst (create_pool limit_reached demo_cfg)
      = [(''fastapi_pool'', 10), (''fastapi_pool_reduced'', 3)]"
    using a sz by (cases "fst (create_pool limit_reached demo_cfg)") (auto simp: Cons_eq_map_conv)
  have a2: "isl (snd (create_pool limit_reached demo_cfg))"
    using a l2 by blast
  have s1: "accepts_small ''fastapi_pool'' (pool_size demo_cfg) (connection_params demo_cfg)
      = Some (MySQLError ER_USER_LIMIT_REACHED)"
    by (simp add: accepts_small_def ER_USER_LIMIT_REACHED_def demo_cfg_def)
  note b = create_pool_retry [of accepts_small demo_cfg "MySQLError 2003", THEN conjunct1,
      rule_format, OF s1]
  have b1: "fst (create_pool accepts_small demo_cfg)
      = [(''fastapi_pool'', 10), (''fastapi_pool_reduced'', 3)]"
    using b sz by (cases "fst (create_pool accepts_small demo_cfg)") (auto simp: Cons_eq_map_conv)
  have b2: "snd (create_pool accepts_small demo_cfg)
      = Inr \<lparr> p_name = ''fastapi_pool_reduced'', p_size = 3, available = 3 \<rparr>"
    using b b1 by (simp add: accepts_small_def)
  have u1: "unreachable ''fastapi_pool'' (pool_size demo_cfg) (connection_params demo_cfg)
      = Some (MySQLError 2003) \<and> MySQLError 2003 \<noteq> MySQLError ER_USER_LIMIT_REACHED"
    by (simp add: unreachable_def ER_USER_LIMIT_REACHED_def)
  note c = create_pool_retry [of unreachable demo_cfg "MySQLError 2003", THEN conjunct2,
      THEN conjunct1, rule_format, OF u1]
  have c1: "fst (create_pool unreachable demo_cfg) = [(''fastapi_pool'', 10)]"
    using c sz by simp
  have c2: "isl (snd (create_pool unreachable demo_cfg))"
    using c by simp
  have k1: "accepts_small ''fastapi_pool'' (pool_size (demo_cfg \<lparr> pool_size := 3 \<rparr>))
      (connection_params (demo_cfg \<lparr> pool_size := 3 \<rparr>)) = None"
    by (simp add: accepts_small_def)
  note d = create_pool_retry [of accepts_small "demo_cfg \<lparr> pool_size := 3 \<rparr>" "MySQLError 2003",
      THEN conjunct2, THEN conjunct2, rule_format, OF k1]
  have d1: "fst (create_pool accepts_small (demo_cfg \<lparr> pool_size := 3 \<rparr>))
      = [(''fastapi_pool'', 3)]"
    using d by simp
  have d2: "snd (create_pool accepts_small (demo_cfg \<lparr> pool_size := 3 \<rparr>))
      = Inr \<lparr> p_name = ''fastapi_pool'', p_size = 3, available = 3 \<rparr>"
    using d by simp
  from a1 a2 b1 b2 c1 c2 d1 d2 show ?thesis by blast
qed

subsection \<open>What a handler hands to the executor\<close>

lemmas handler_defs =
  get_empleados_def get_empleado_def create_empleado_def update_empleado_def delete_empleado_def
  get_clientes_def get_cliente_def create_cliente_def update_cliente_def delete_cliente_def
  get_proveedores_def get_proveedor_def create_proveedor_def update_proveedor_def
  delete_proveedor_def

lemma handle_world:
  "snd (handle be f r w) =
     (if rejected r then w
      else snd (execute_query be f (statement r) (bound r) (wants_one r) (wants_all r)
                  (wants_id r) w))"
  by (cases r) (simp_all add: handler_defs case_prod_beta)

lemma handle_rejected:
  "rejected r \<Longrightarrow> \<exists>detail. handle be f r w = (Inl (HTTPException 400 detail), w)"
  by (cases r) (simp_all add: handler_defs)

lemma handle_events:
  "events_of_call w (snd (handle be f r w)) =
     (if rejected r then []
      else call_events be f (statement r) (bound r) (wants_one r) (wants_all r) w)"
  by (simp add: handle_world execute_query_events) (simp add: events_of_call_def)

lemma handle_config: "db_config (snd (handle be f r w)) = db_config w"
  by (simp add: handle_world execute_query_config)

lemma statement_route: "route r1 = route r2 \<Longrightarrow> statement r1 = statement r2"
  by (cases r1; cases r2; simp)

lemma executed_statement:
  assumes "Execute q ps \<in> set (events_of_call w (snd (handle be f r w)))"
  shows "q = statement r \<and> ps = params_or_empty (bound r) \<and> \<not> rejected r"
  using assms
  by (auto simp: handle_events call_events_def block_events_def split: if_splits)

subsection \<open>Statement texts\<close>

text \<open>
  C7: for every route, the statement text that a handler passes to \<open>cursor.execute\<close> is
  the same for all request data, server states and driver behaviours: any two statements
  executed by requests of the same route have the same text, and the request data travel
  only in the bound-parameter sequence of the call.
\<close>

theorem statement_text_fixed:
  assumes "route r1 = route r2"
    and "Execute q1 ps1 \<in> set (events_of_call w1 (snd (handle be1 f1 r1 w1)))"
    and "Execute q2 ps2 \<in> set (events_of_call w2 (snd (handle be2 f2 r2 w2)))"
  shows "q1 = q2 \<and> ps1 = params_or_empty (bound r1) \<and> ps2 = params_or_empty (bound r2)"
  using executed_statement [OF assms(2)] executed_statement [OF assms(3)]
    statement_route [OF assms(1)]
  by simp

text \<open>Creating an employee whose name is a fragment of SQL executes the same text as
  creating any other employee; the name is a bound parameter.\<close>

theorem statement_text_fixed_witness:
  "route (CreateEmpleado plain_empleado) = route (CreateEmpleado injection_attempt)
   \<and> Execute ''INSERT INTO empleados (nombre, puesto, salario) VALUES (%s, %s, %s)''
        [PStr ''Ana'', PStr ''dev'', PFloat 1000]
      \<in> set (events_of_call demo_world
                (snd (handle demo_backend no_faults (CreateEmpleado plain_empleado) demo_world)))
   \<and> Execute ''INSERT INTO empleados (nombre, puesto, salario) VALUES (%s, %s, %s)''
        [PStr ''x); DROP TABLE empleados; --'', PStr ''dev'', PFloat 1000]
      \<in> set (events_of_call demo_world
                (snd (handle demo_backend no_faults (CreateEmpleado injection_attempt) demo_world)))"
proof -
  let ?q = "''INSERT INTO empleados (nombre, puesto, salario) VALUES (%s, %s, %s)''"
  have r: "route (CreateEmpleado plain_empleado) = route (CreateEmpleado injection_attempt)"
    by simp
  have a: "acquires no_faults demo_world \<and> cursor_exc no_faults = None"
    by (simp add: acquires_def demo_world_def no_faults_def)
  have e1: "Execute ?q [PStr ''Ana'', PStr ''dev'', PFloat 1000]
      \<in> set (events_of_call demo_world
                (snd (handle demo_backend no_faults (CreateEmpleado plain_empleado) demo_world)))"
    using a by (simp add: handle_events call_events_def block_events_def params_or_empty_def
        EmpleadoCreate_params_def plain_empleado_def del: handle.simps)
  have e2: "Execute ?q [PStr ''x); DROP TABLE empleados; --'', PStr ''dev'', PFloat 1000]
      \<in> set (events_of_call demo_world
                (snd (handle demo_backend no_faults (CreateEmpleado injection_attempt) demo_world)))"
    using a by (simp add: handle_events call_events_def block_events_def params_or_empty_def
        EmpleadoCreate_params_def injection_attempt_def del: handle.simps)
  from statement_text_fixed [OF r e1 e2] r e1 e2 show ?thesis by blast
qed

subsection \<open>Loading and stability of the configuration\<close>

lemma getenv_int_Inr:
  assumes "getenv_int py_int env k d = Inr n"
  shows "(env k = None \<longrightarrow> n = d) \<and> (\<forall>v. env k = Some v \<longrightarrow> py_int v = Some n)"
  using assms by (auto simp: getenv_int_def split: option.splits)

lemma getenv_int_Inl:
  "isl (getenv_int py_int env k d) \<longleftrightarrow> (\<exists>v. env k = Some v \<and> py_int v = None)"
  by (auto simp: getenv_int_def split: option.splits)

lemma getenv_case: "getenv env k d = (case env k of None \<Rightarrow> d | Some v \<Rightarrow> v)"
  by (simp add: getenv_def)

lemma getenv_True:
  "(env k = None \<longrightarrow> getenv env k ''True'' = ''True'')
   \<and> (\<forall>v. env k = Some v \<longrightarrow> (getenv env k ''True'' = ''True'') = (v = ''True''))"
  by (simp add: getenv_def)

lemma DBConfig_init_Inr:
  assumes "DBConfig_init py_int env = Inr cfg"
  shows "getenv_int py_int env ''DB_PORT'' 3306 = Inr (port cfg)
       \<and> getenv_int py_int env ''DB_POOL_SIZE'' 3 = Inr (pool_size cfg)
       \<and> host cfg = getenv env ''DB_HOST'' ''bsuwmw1ycddteycis6m7-mysql.services.clever-cloud.com''
       \<and> user cfg = getenv env ''DB_USER'' ''u2laijuwgrququak''
       \<and> password cfg = getenv env ''DB_PASSWORD'' ''K7tO7lfFm2i7vXAGHN6U''
       \<and> database cfg = getenv env ''DB_NAME'' ''bsuwmw1ycddteycis6m7''
       \<and> ssl_disabled cfg = (getenv env ''SSL_DISABLED'' ''True'' = ''True'')"
proof (cases "getenv_int py_int env ''DB_PORT'' 3306")
  case (Inl e)
  with assms show ?thesis by (simp add: DBConfig_init_def)
next
  case p: (Inr p)
  show ?thesis
  proof (cases "getenv_int py_int env ''DB_POOL_SIZE'' 3")
    case (Inl e)
    with assms p show ?thesis by (simp add: DBConfig_init_def)
  next
    case (Inr n)
    with assms p have "cfg = \<lparr> host = getenv env ''DB_HOST'' ''bsuwmw1ycddteycis6m7-mysql.services.clever-cloud.com'',
                   user = getenv env ''DB_USER'' ''u2laijuwgrququak'',
                   password = getenv env ''DB_PASSWORD'' ''K7tO7lfFm2i7vXAGHN6U'',
                   database = getenv env ''DB_NAME'' ''bsuwmw1ycddteycis6m7'',
                   port = p,
                   ssl_disabled = (getenv env ''SSL_DISABLED'' ''True'' = ''True''),
                   pool_size = n \<rparr>"
      by (simp add: DBConfig_init_def)
    with p Inr show ?thesis by simp
  qed
qed

lemma DBConfig_init_Inl:
  "isl (DBConfig_init py_int env) \<longleftrightarrow>
     isl (getenv_int py_int env ''DB_PORT'' 3306) \<or> isl (getenv_int py_int env ''DB_POOL_SIZE'' 3)"
  by (simp add: DBConfig_init_def split: sum.splits)

text \<open>
  C8: the configuration is read from the environment at startup. Loading fails exactly when
  \<open>DB_PORT\<close> or \<open>DB_POOL_SIZE\<close> is set to a string that \<open>int\<close> refuses. The configuration
  of a started module is the loaded one, and the pool was created from it: host, user,
  password and database name are the values of their variables, or the defaults of the
  source when unset; the port is the integer value of \<open>DB_PORT\<close>, or 3306 when unset; the
  TLS-disabled flag is the comparison of \<open>SSL_DISABLED\<close> with \<open>True\<close>, and true when unset;
  the pool size is the integer value of \<open>DB_POOL_SIZE\<close>, or 3 when unset. Neither the
  executor nor any handler changes the configuration afterwards (and none of them takes
  the environment).
\<close>

theorem config_defaults:
  "(isl (DBConfig_init py_int env) \<longleftrightarrow>
      (\<exists>v. env ''DB_PORT'' = Some v \<and> py_int v = None)
      \<or> (\<exists>v. env ''DB_POOL_SIZE'' = Some v \<and> py_int v = None))
   \<and> (database_module py_int ctor env db = Inr w \<longrightarrow>
        DBConfig_init py_int env = Inr (db_config w)
        \<and> (\<exists>p. snd (create_pool ctor (db_config w)) = Inr p \<and> connection_pool w = Some p)
        \<and> host (db_config w)
            = (case env ''DB_HOST'' of
                 None \<Rightarrow> ''bsuwmw1ycddteycis6m7-mysql.services.clever-cloud.com''
               | Some v \<Rightarrow> v)
        \<and> user (db_config w)
            = (case env ''DB_USER'' of None \<Rightarrow> ''u2laijuwgrququak'' | Some v \<Rightarrow> v)
        \<and> password (db_config w)
            = (case env ''DB_PASSWORD'' of None \<Rightarrow> ''K7tO7lfFm2i7vXAGHN6U'' | Some v \<Rightarrow> v)
        \<and> database (db_config w)
            = (case env ''DB_NAME'' of None \<Rightarrow> ''bsuwmw1ycddteycis6m7'' | Some v \<Rightarrow> v)
        \<and> (env ''DB_PORT'' = None \<longrightarrow> port (db_config w) = 3306)
        \<and> (\<forall>v. env ''DB_PORT'' = Some v \<longrightarrow> py_int v = Some (port (db_config w)))
        \<and> (env ''SSL_DISABLED'' = None \<longrightarrow> ssl_disabled (db_config w))
        \<and> (\<forall>v. env ''SSL_DISABLED'' = Some v \<longrightarrow>
              ssl_disabled (db_config w) = (v = ''True''))
        \<and> (env ''DB_POOL_SIZE'' = None \<longrightarrow> pool_size (db_config w) = 3)
        \<and> (\<forall>v. env ''DB_POOL_SIZE'' = Some v \<longrightarrow> py_int v = Some (pool_size (db_config w))))
   \<and> db_config (snd (execute_query be f q ps fo fa lr w')) = db_config w'
   \<and> db_config (snd (handle be f r w')) = db_config w'"
proof -
  have fails: "isl (DBConfig_init py_int env) \<longleftrightarrow>
      (\<exists>v. env ''DB_PORT'' = Some v \<and> py_int v = None)
      \<or> (\<exists>v. env ''DB_POOL_SIZE'' = Some v \<and> py_int v = None)"
    by (simp only: DBConfig_init_Inl getenv_int_Inl)
  have c1: "db_config (snd (execute_query be f q ps fo fa lr w')) = db_config w'"
    by (rule execute_query_config)
  have c2: "db_config (snd (handle be f r w')) = db_config w'"
    by (rule handle_config)
  have started: "DBConfig_init py_int env = Inr (db_config w)
        \<and> (\<exists>p. snd (create_pool ctor (db_config w)) = Inr p \<and> connection_pool w = Some p)
        \<and> host (db_config w)
            = (case env ''DB_HOST'' of
                 None \<Rightarrow> ''bsuwmw1ycddteycis6m7-mysql.services.clever-cloud.com''
               | Some v \<Rightarrow> v)
        \<and> user (db_config w)
            = (case env ''DB_USER'' of None \<Rightarrow> ''u2laijuwgrququak'' | Some v \<Rightarrow> v)
        \<and> password (db_config w)
            = (case env ''DB_PASSWORD'' of None \<Rightarrow> ''K7tO7lfFm2i7vXAGHN6U'' | Some v \<Rightarrow> v)
        \<and> database (db_config w)
            = (case env ''DB_NAME'' of None \<Rightarrow> ''bsuwmw1ycddteycis6m7'' | Some v \<Rightarrow> v)
        \<and> (env ''DB_PORT'' = None \<longrightarrow> port (db_config w) = 3306)
        \<and> (\<forall>v. env ''DB_PORT'' = Some v \<longrightarrow> py_int v = Some (port (db_config w)))
        \<and> (env ''SSL_DISABLED'' = None \<longrightarrow> ssl_disabled (db_config w))
        \<and> (\<forall>v. env ''SSL_DISABLED'' = Some v \<longrightarrow>
              ssl_disabled (db_config w) = (v = ''True''))
        \<and> (env ''DB_POOL_SIZE'' = None \<longrightarrow> pool_size (db_config w) = 3)
        \<and> (\<forall>v. env ''DB_POOL_SIZE'' = Some v \<longrightarrow> py_int v = Some (pool_size (db_config w)))"
    if m: "database_module py_int ctor env db = Inr w"
  proof -
    from m have i: "DBConfig_init py_int env = Inr (db_config w)"
      by (auto simp: database_module_def split: sum.splits)
    from m have p: "\<exists>p. snd (create_pool ctor (db_config w)) = Inr p \<and> connection_pool w = Some p"
      by (auto simp: database_module_def split: sum.splits)
    note c = DBConfig_init_Inr [OF i]
    from c have port: "getenv_int py_int env ''DB_PORT'' 3306 = Inr (port (db_config w))"
      by (rule conjunct1)
    from c have size: "getenv_int py_int env ''DB_POOL_SIZE'' 3 = Inr (pool_size (db_config w))"
      by (rule conjunct2 [THEN conjunct1])
    from c have strs: "host (db_config w)
            = (case env ''DB_HOST'' of
                 None \<Rightarrow> ''bsuwmw1ycddteycis6m7-mysql.services.clever-cloud.com''
               | Some v \<Rightarrow> v)
        \<and> user (db_config w)
            = (case env ''DB_USER'' of None \<Rightarrow> ''u2laijuwgrququak'' | Some v \<Rightarrow> v)
        \<and> password (db_config w)
            = (case env ''DB_PASSWORD'' of None \<Rightarrow> ''K7tO7lfFm2i7vXAGHN6U'' | Some v \<Rightarrow> v)
        \<and> database (db_config w)
            = (case env ''DB_NAME'' of None \<Rightarrow> ''bsuwmw1ycddteycis6m7'' | Some v \<Rightarrow> v)"
      by (simp only: getenv_case)
    from c have "ssl_disabled (db_config w) = (getenv env ''SSL_DISABLED'' ''True'' = ''True'')"
      by (rule conjunct2 [THEN conjunct2, THEN conjunct2, THEN conjunct2, THEN conjunct2,
            THEN conjunct2])
    with getenv_True [of env "''SSL_DISABLED''"]
    have ssl: "(env ''SSL_DISABLED'' = None \<longrightarrow> ssl_disabled (db_config w))
        \<and> (\<forall>v. env ''SSL_DISABLED'' = Some v \<longrightarrow> ssl_disabled (db_config w) = (v = ''True''))"
      by (simp only:)
    from i p strs getenv_int_Inr [OF port] ssl getenv_int_Inr [OF size]
    show ?thesis by blast
  qed
  from fails started c1 c2 show ?thesis by blast
qed

text \<open>An empty environment gives the defaults; an environment that sets host, port, flag
  and pool size gives those values, and a pool of that size; a port that is not a number
  makes loading fail.\<close>

lemma decimal_numerals:
  "decimal ''3307'' = Some 3307"
  "decimal ''4'' = Some 4"
  "decimal ''mysql'' = None"
  by (simp_all add: decimal_def digit_value_def)

theorem config_defaults_witness:
  "(\<exists>w. database_module decimal accepts_all Map.empty (0::nat) = Inr w
        \<and> port (db_config w) = 3306 \<and> ssl_disabled (db_config w) \<and> pool_size (db_config w) = 3
        \<and> connection_pool w = Some \<lparr> p_name = ''fastapi_pool'', p_size = 3, available = 3 \<rparr>)
   \<and> (\<exists>w. database_module decimal accepts_all staging_env (0::nat) = Inr w
        \<and> host (db_config w) = ''db.internal''
        \<and> port (db_config w) = 3307 \<and> \<not> ssl_disabled (db_config w)
        \<and> pool_size (db_config w) = 4
        \<and> connection_pool w = Some \<lparr> p_name = ''fastapi_pool'', p_size = 4, available = 4 \<rparr>)
   \<and> isl (DBConfig_init decimal broken_env)"
proof -
  obtain w1 where m1: "database_module decimal accepts_all Map.empty (0::nat) = Inr w1"
    by (simp add: database_module_def DBConfig_init_def getenv_int_def create_pool_def
        MySQLConnectionPool_def accepts_all_def)
  note t1 = config_defaults [of decimal Map.empty accepts_all "0::nat" w1, THEN conjunct2,
      THEN conjunct1, rule_format, OF m1]
  have p1: "port (db_config w1) = 3306 \<and> ssl_disabled (db_config w1)
      \<and> pool_size (db_config w1) = 3"
    using t1 by simp
  have q1: "connection_pool w1 = Some \<lparr> p_name = ''fastapi_pool'', p_size = 3, available = 3 \<rparr>"
    using t1 p1 by (auto simp: create_pool_def MySQLConnectionPool_def accepts_all_def)
  obtain w2 where m2: "database_module decimal accepts_all staging_env (0::nat) = Inr w2"
    by (simp add: database_module_def DBConfig_init_def getenv_int_def create_pool_def
        MySQLConnectionPool_def accepts_all_def staging_env_def decimal_numerals)
  note t2 = config_defaults [of decimal staging_env accepts_all "0::nat" w2, THEN conjunct2,
      THEN conjunct1, rule_format, OF m2]
  have e: "staging_env ''DB_HOST'' = Some ''db.internal''"
    "staging_env ''DB_PORT'' = Some ''3307''"
    "staging_env ''SSL_DISABLED'' = Some ''False''"
    "staging_env ''DB_POOL_SIZE'' = Some ''4''"
    by (simp_all add: staging_env_def)
  have p2: "host (db_config w2) = ''db.internal'' \<and> port (db_config w2) = 3307
      \<and> \<not> ssl_disabled (db_config w2) \<and> pool_size (db_config w2) = 4"
    using t2 e by (simp add: decimal_numerals)
  have q2: "connection_pool w2 = Some \<lparr> p_name = ''fastapi_pool'', p_size = 4, available = 4 \<rparr>"
    using t2 p2 by (auto simp: create_pool_def MySQLConnectionPool_def accepts_all_def)
  have b: "isl (DBConfig_init decimal broken_env)"
    using config_defaults [of decimal broken_env, THEN conjunct1]
    by (simp add: broken_env_def decimal_numerals)
  from m1 p1 q1 m2 p2 q2 b show ?thesis by blast
qed

subsection \<open>Validation of required fields\<close>

text \<open>The client and supplier handlers of create and update answer 400 before any driver
  call when a required field is empty.\<close>

lemma validation_before_query:
  assumes "rejected r"
  shows "(\<exists>detail. fst (handle be f r w) = Inl (HTTPException 400 detail))
       \<and> snd (handle be f r w) = w
       \<and> events_of_call w (snd (handle be f r w)) = []"
  using handle_rejected [OF assms, of be f w] assms
  by (auto simp: handle_events)

text \<open>
  C5 does not hold for employees: \<open>create_empleado\<close> (and \<open>update_empleado\<close>) has no check
  of its fields. Creating an employee with an empty name executes the \<open>INSERT\<close>, commits
  it and answers 201.
\<close>

theorem create_empleado_without_nombre:
  "nombre unnamed_empleado = []
   \<and> fst (create_empleado demo_backend no_faults unnamed_empleado demo_world)
       = Inr \<lparr> status_code = 201,
               body = PDict [(''nombre'', PStr []), (''puesto'', PStr ''dev''),
                             (''salario'', PFloat 1000), (''id'', PInt 7)] \<rparr>
   \<and> events_of_call demo_world
        (snd (create_empleado demo_backend no_faults unnamed_empleado demo_world))
       = [Acquired,
          Execute ''INSERT INTO empleados (nombre, puesto, salario) VALUES (%s, %s, %s)''
            [PStr [], PStr ''dev'', PFloat 1000],
          Commit, Released]"
proof -
  have a: "acquires no_faults demo_world"
    by (simp add: acquires_def demo_world_def no_faults_def)
  have r: "fst (create_empleado demo_backend no_faults unnamed_empleado demo_world)
       = Inr \<lparr> status_code = 201,
               body = PDict [(''nombre'', PStr []), (''puesto'', PStr ''dev''),
                             (''salario'', PFloat 1000), (''id'', PInt 7)] \<rparr>"
    by (simp add: create_empleado_def case_prod_beta execute_query_result selected_def
        demo_world_def no_faults_def demo_backend_def EmpleadoCreate_dict_def
        unnamed_empleado_def)
  have e: "events_of_call demo_world
        (snd (create_empleado demo_backend no_faults unnamed_empleado demo_world))
       = [Acquired,
          Execute ''INSERT INTO empleados (nombre, puesto, salario) VALUES (%s, %s, %s)''
            [PStr [], PStr ''dev'', PFloat 1000],
          Commit, Released]"
    using a handle_events [of demo_world demo_backend no_faults "CreateEmpleado unnamed_empleado"]
    by (simp add: call_events_def block_events_def reaches_commit_def params_or_empty_def
        EmpleadoCreate_params_def unnamed_empleado_def demo_backend_def no_faults_def)
  show ?thesis using r e by (simp add: unnamed_empleado_def)
qed

subsection \<open>The statements of the handlers, parsed\<close>

lemma parse_select_empleados:
  "parse_sql ''SELECT * FROM empleados''
     = Some (Select ''empleados'' None)"
  by code_simp

lemma parse_select_empleado:
  "parse_sql ''SELECT * FROM empleados WHERE id = %s''
     = Some (Select ''empleados'' (Some ''id''))"
  by code_simp

lemma parse_insert_empleado:
  "parse_sql ''INSERT INTO empleados (nombre, puesto, salario) VALUES (%s, %s, %s)''
     = Some (Insert ''empleados'' [''nombre'', ''puesto'', ''salario''])"
  by code_simp

lemma parse_update_empleado:
  "parse_sql ''UPDATE empleados SET nombre=%s, puesto=%s, salario=%s WHERE id=%s''
     = Some (Update ''empleados'' [''nombre'', ''puesto'', ''salario''] ''id'')"
  by code_simp

lemma parse_delete_empleado:
  "parse_sql ''DELETE FROM empleados WHERE id = %s''
     = Some (Delete ''empleados'' ''id'')"
  by code_simp

lemma parse_select_clientes:
  "parse_sql ''SELECT * FROM clientes''
     = Some (Select ''clientes'' None)"
  by code_simp

lemma parse_select_cliente:
  "parse_sql ''SELECT * FROM clientes WHERE id_cliente = %s''
     = Some (Select ''clientes'' (Some ''id_cliente''))"
  by code_simp

lemma parse_insert_cliente:
  "parse_sql ''INSERT INTO clientes (numero_identificacion, nombre_cliente, telefono_cliente, email_cliente) VALUES (%s, %s, %s, %s)''
     = Some (Insert ''clientes'' [''numero_identificacion'', ''nombre_cliente'', ''telefono_cliente'', ''email_cliente''])"
  by code_simp

lemma parse_update_cliente:
  "parse_sql ''UPDATE clientes SET numero_identificacion=%s, nombre_cliente=%s, telefono_cliente=%s, email_cliente=%s WHERE id_cliente=%s''
     = Some (Update ''clientes'' [''numero_identificacion'', ''nombre_cliente'', ''telefono_cliente'', ''email_cliente''] ''id_cliente'')"
  by code_simp

lemma parse_delete_cliente:
  "parse_sql ''DELETE FROM clientes WHERE id_cliente = %s''
     = Some (Delete ''clientes'' ''id_cliente'')"
  by code_simp

lemma parse_select_proveedores:
  "parse_sql ''SELECT * FROM proveedores''
     = Some (Select ''proveedores'' None)"
  by code_simp

lemma parse_select_proveedor:
  "parse_sql ''SELECT * FROM proveedores WHERE id_proveedor = %s''
     = Some (Select ''proveedores'' (Some ''id_proveedor''))"
  by code_simp

lemma parse_insert_proveedor:
  "parse_sql ''INSERT INTO proveedores (numero_identificacion, nombre_proveedor, contacto_principal, telefono_proveedor) VALUES (%s, %s, %s, %s)''
     = Some (Insert ''proveedores'' [''numero_identificacion'', ''nombre_proveedor'', ''contacto_principal'', ''telefono_proveedor''])"
  by code_simp

lemma parse_update_proveedor:
  "parse_sql ''UPDATE proveedores SET numero_identificacion=%s, nombre_proveedor=%s, contacto_principal=%s, telefono_proveedor=%s WHERE id_proveedor=%s''
     = Some (Update ''proveedores'' [''numero_identificacion'', ''nombre_proveedor'', ''contacto_principal'', ''telefono_proveedor''] ''id_proveedor'')"
  by code_simp

lemma parse_delete_proveedor:
  "parse_sql ''DELETE FROM proveedores WHERE id_proveedor = %s''
     = Some (Delete ''proveedores'' ''id_proveedor'')"
  by code_simp

lemmas parse_statements =
  parse_select_empleados parse_select_empleado parse_insert_empleado parse_update_empleado
  parse_delete_empleado parse_select_clientes parse_select_cliente parse_insert_cliente
  parse_update_cliente parse_delete_cliente parse_select_proveedores parse_select_proveedor
  parse_insert_proveedor parse_update_proveedor parse_delete_proveedor

subsection \<open>Update and delete of a key that is not stored\<close>

lemma assign_no_match: "map_of r c \<noteq> Some v \<Longrightarrow> assign cols vals c v r = r"
  by (simp add: assign_def matches_def)

lemma map_assign_absent:
  "list_all (\<lambda>r. map_of r c \<noteq> Some v) rs \<Longrightarrow> map (assign cols vals c v) rs = rs"
  by (induction rs) (simp_all add: assign_no_match)

lemma changed_absent:
  "list_all (\<lambda>r. map_of r c \<noteq> Some v) rs \<Longrightarrow>
   filter (\<lambda>r. assign cols vals c v r \<noteq> r) rs = []"
  by (induction rs) (simp_all add: assign_no_match)

lemma matching_absent:
  "list_all (\<lambda>r. map_of r c \<noteq> Some v) rs \<Longrightarrow> filter (matches c v) rs = []"
  by (induction rs) (simp_all add: matches_def)

lemma remaining_absent:
  "list_all (\<lambda>r. map_of r c \<noteq> Some v) rs \<Longrightarrow> filter (\<lambda>r. \<not> matches c v r) rs = rs"
  by (induction rs) (simp_all add: matches_def)

lemma table_unchanged: "db t = Some tb \<Longrightarrow> db(t \<mapsto> tb\<lparr> contents := contents tb \<rparr>) = db"
  by (simp add: map_upd_triv)

lemma update_absent:
  assumes "absent db t c i" and "length vals = length cols"
  shows "run_stmt (Update t cols c) (vals @ [PInt i]) db
           = Inr (\<lparr> rows = [], rowcount = 0, lastrowid = 0 \<rparr>, db)"
  using assms
  by (auto simp: absent_def map_assign_absent changed_absent table_unchanged
           split: option.splits)

lemma delete_absent:
  assumes "absent db t c i"
  shows "run_stmt (Delete t c) [PInt i] db
           = Inr (\<lparr> rows = [], rowcount = 0, lastrowid = 0 \<rparr>, db)"
  using assms
  by (auto simp: absent_def matching_absent remaining_absent table_unchanged
           split: option.splits)

lemma server_on_absent:
  assumes "target r = Some (t, c, i)" and "absent db t c i"
  shows "reference_server (statement r) (params_or_empty (bound r)) db
           = Inr (\<lparr> rows = [], rowcount = 0, lastrowid = 0 \<rparr>, db)"
proof (cases r)
  case (UpdateEmpleado j e)
  with assms show ?thesis
    using update_absent [of db t c i "EmpleadoCreate_params e" "[''nombre'', ''puesto'', ''salario'']"]
    by (simp add: reference_server_def parse_statements params_or_empty_def
          EmpleadoCreate_params_def)
next
  case (UpdateCliente j k)
  with assms show ?thesis
    using update_absent [of db t c i "ClienteCreate_params k"
        "[''numero_identificacion'', ''nombre_cliente'', ''telefono_cliente'', ''email_cliente'']"]
    by (simp add: reference_server_def parse_statements params_or_empty_def
          ClienteCreate_params_def)
next
  case (UpdateProveedor j p)
  with assms show ?thesis
    using update_absent [of db t c i "ProveedorCreate_params p"
        "[''numero_identificacion'', ''nombre_proveedor'', ''contacto_principal'',
          ''telefono_proveedor'']"]
    by (simp add: reference_server_def parse_statements params_or_empty_def
          ProveedorCreate_params_def)
next
  case (DeleteEmpleado j)
  with assms delete_absent [of db t c i] show ?thesis
    by (simp add: reference_server_def parse_statements params_or_empty_def)
next
  case (DeleteCliente j)
  with assms delete_absent [of db t c i] show ?thesis
    by (simp add: reference_server_def parse_statements params_or_empty_def)
next
  case (DeleteProveedor j)
  with assms delete_absent [of db t c i] show ?thesis
    by (simp add: reference_server_def parse_statements params_or_empty_def)
qed (use assms in simp_all)

lemma target_flags:
  "target r = Some x \<Longrightarrow> \<not> wants_one r \<and> \<not> wants_all r \<and> \<not> wants_id r"
  by (cases r) simp_all

lemma handle_modify_error:
  assumes "target r = Some x" and "\<not> rejected r"
    and "fst (execute_query be f (statement r) (bound r) False False False w) = Inl e"
  shows "fst (handle be f r w) = Inl e"
  using assms
  by (cases r) (simp_all add: handler_defs case_prod_beta)

lemma handle_modify_zero:
  assumes "target r = Some x" and "\<not> rejected r"
    and "fst (execute_query be f (statement r) (bound r) False False False w) = Inr (PInt 0)"
  shows "\<exists>detail. fst (handle be f r w) = Inl (HTTPException 404 detail)"
  using assms
  by (cases r) (simp_all add: handler_defs case_prod_beta)

text \<open>
  C4: for every update or delete request, on any of the three resources, that the handler
  passes on to the executor (the client and supplier updates check their required fields
  first) and whose id matches no stored row of the resource's table: when the driver calls
  of the executor succeed it returns the affected-row count 0 and the handler answers 404;
  whatever the driver does, the handler never answers with a success, and the stored
  records are the same after the request as before it.
\<close>

theorem missing_id_not_found:
  assumes "target r = Some (t, c, i)" and "\<not> rejected r" and "absent (server_db w) t c i"
  shows "(healthy f w \<longrightarrow>
            fst (execute_query reference_server f (statement r) (bound r) False False False w)
              = Inr (PInt 0)
            \<and> (\<exists>detail. fst (handle reference_server f r w) = Inl (HTTPException 404 detail)))
       \<and> isl (fst (handle reference_server f r w))
       \<and> server_db (snd (handle reference_server f r w)) = server_db w"
proof -
  note s = server_on_absent [OF assms(1) assms(3)]
  have flags: "\<not> wants_one r \<and> \<not> wants_all r \<and> \<not> wants_id r"
    using assms(1) by (rule target_flags)
  have res: "healthy f w \<Longrightarrow>
      fst (execute_query reference_server f (statement r) (bound r) False False False w)
        = Inr (PInt 0)"
    using s by (auto simp: healthy_def acquires_def execute_query_result selected_def
        split: option.splits)
  have nf: "healthy f w \<Longrightarrow>
      \<exists>detail. fst (handle reference_server f r w) = Inl (HTTPException 404 detail)"
    using handle_modify_zero [OF assms(1) assms(2) res] by simp
  have never: "isl (fst (handle reference_server f r w))"
  proof (cases "fst (execute_query reference_server f (statement r) (bound r) False False False w)")
    case (Inl e)
    from handle_modify_error [OF assms(1) assms(2) Inl] show ?thesis by simp
  next
    case (Inr v)
    from execute_query_returns [OF Inr] s have "v = PInt 0"
      by (auto simp: selected_def)
    with Inr handle_modify_zero [OF assms(1) assms(2), of reference_server f w]
    show ?thesis by auto
  qed
  have db: "server_db (snd (handle reference_server f r w)) = server_db w"
    using s assms(2) flags by (simp add: handle_world execute_query_server_db)
  from res nf never db show ?thesis by blast
qed

text \<open>Deleting employee 99 and updating client 99 with valid fields, neither stored.\<close>

theorem missing_id_not_found_witness:
  "fst (handle reference_server no_faults (DeleteEmpleado 99) shop_world)
       = Inl (HTTPException 404 ''Empleado no encontrado'')
   \<and> server_db (snd (handle reference_server no_faults (DeleteEmpleado 99) shop_world))
       = server_db shop_world
   \<and> fst (handle reference_server no_faults (UpdateCliente 99 jane) shop_world)
       = Inl (HTTPException 404 ''Cliente no encontrado'')
   \<and> server_db (snd (handle reference_server no_faults (UpdateCliente 99 jane) shop_world))
       = server_db shop_world"
proof -
  have h: "healthy no_faults shop_world"
    by (simp add: healthy_def acquires_def shop_world_def no_faults_def)
  have t1: "target (DeleteEmpleado 99) = Some (''empleados'', ''id'', 99)" by simp
  have n1: "\<not> rejected (DeleteEmpleado 99)" by simp
  have a1: "absent (server_db shop_world) ''empleados'' ''id'' 99"
    by (simp add: absent_def shop_world_def demo_store_def)
  note m1 = missing_id_not_found [OF t1 n1 a1, of no_faults]
  from m1 h obtain d1 where
    z1: "fst (execute_query reference_server no_faults (statement (DeleteEmpleado 99))
           (bound (DeleteEmpleado 99)) False False False shop_world) = Inr (PInt 0)"
    and e1: "fst (handle reference_server no_faults (DeleteEmpleado 99) shop_world)
           = Inl (HTTPException 404 d1)"
    by blast
  have r1: "fst (handle reference_server no_faults (DeleteEmpleado 99) shop_world)
       = Inl (HTTPException 404 ''Empleado no encontrado'')"
    using z1 by (simp add: delete_empleado_def case_prod_beta)
  have t2: "target (UpdateCliente 99 jane) = Some (''clientes'', ''id_cliente'', 99)" by simp
  have n2: "\<not> rejected (UpdateCliente 99 jane)"
    by (simp add: ClienteCreate_missing_def jane_def)
  have a2: "absent (server_db shop_world) ''clientes'' ''id_cliente'' 99"
    by (simp add: absent_def shop_world_def demo_store_def)
  note m2 = missing_id_not_found [OF t2 n2 a2, of no_faults]
  from m2 h have
    z2: "fst (execute_query reference_server no_faults (statement (UpdateCliente 99 jane))
           (bound (UpdateCliente 99 jane)) False False False shop_world) = Inr (PInt 0)"
    by blast
  have r2: "fst (handle reference_server no_faults (UpdateCliente 99 jane) shop_world)
       = Inl (HTTPException 404 ''Cliente no encontrado'')"
    using z2 n2 by (simp add: update_cliente_def case_prod_beta)
  from m1 m2 r1 r2 show ?thesis by blast
qed

subsection \<open>Create, then get\<close>

lemma select_new_row:
  assumes "unused_next tb" and "c = pk tb"
  shows "run_stmt (Select t (Some c)) [PInt (next_id tb)]
           (db(t \<mapsto> tb\<lparr> next_id := n, contents := contents tb @ [(c, PInt (next_id tb)) # z] \<rparr>))
         = Inr (\<lparr> rows = [(c, PInt (next_id tb)) # z], rowcount = - 1, lastrowid = 0 \<rparr>,
                db(t \<mapsto> tb\<lparr> next_id := n,
                              contents := contents tb @ [(c, PInt (next_id tb)) # z] \<rparr>))"
  using assms matching_absent [of "pk tb" "PInt (next_id tb)" "contents tb"]
  by (simp add: unused_next_def matches_def)

lemma create_shape:
  assumes "creates r = Some (t, c)"
  shows "\<exists>cols. parse_sql (statement r) = Some (Insert t cols)
           \<and> length (params_or_empty (bound r)) = length cols
           \<and> zip cols (params_or_empty (bound r)) = submitted r"
  using assms
  by (cases r)
     (simp_all add: parse_statements params_or_empty_def EmpleadoCreate_params_def
        EmpleadoCreate_dict_def ClienteCreate_params_def ClienteCreate_dict_def
        ProveedorCreate_params_def ProveedorCreate_dict_def)

lemma create_flags:
  "creates r = Some x \<Longrightarrow> \<not> wants_one r \<and> \<not> wants_all r \<and> wants_id r"
  by (cases r) simp_all

lemma reader_shape:
  assumes "creates r = Some (t, c)"
  shows "parse_sql (statement (reader r i)) = Some (Select t (Some c))
       \<and> bound (reader r i) = Some [PInt i]
       \<and> wants_one (reader r i) \<and> \<not> rejected (reader r i)"
  using assms by (cases r) (simp_all add: parse_statements)

lemma key_appended:
  assumes "creates r = Some (t, c)"
  shows "AList.update c v (submitted r) = submitted r @ [(c, v)]
       \<and> map_of ((c, v) # submitted r) = map_of (submitted r @ [(c, v)])"
  using assms
  by (cases r)
     (auto simp: EmpleadoCreate_dict_def ClienteCreate_dict_def ProveedorCreate_dict_def
        fun_eq_iff)

lemma handle_create:
  assumes "creates r = Some (t, c)" and "fst (handle be f r w) = Inr resp"
  shows "\<not> rejected r
       \<and> (\<exists>v. fst (execute_query be f (statement r) (bound r) False False True w) = Inr v
              \<and> resp = \<lparr> status_code = 201, body = PDict (AList.update c v (submitted r)) \<rparr>)"
  using assms
  by (cases r) (auto simp: handler_defs case_prod_beta split: sum.splits if_splits)

lemma handle_get_row:
  assumes "wants_one r"
    and "fst (execute_query be f (statement r) (bound r) True False False w) = Inr (PDict (x # xs))"
  shows "fst (handle be f r w) = Inr \<lparr> status_code = 200, body = PDict (x # xs) \<rparr>"
  using assms
  by (cases r) (simp_all add: handler_defs case_prod_beta)

text \<open>
  C6: for every create request of the three resources that succeeds against the reference
  server, the response has status 201 and its record is the submitted fields followed by
  the newly assigned integer key of the resource; a get of that key on the resulting
  state, on a healthy connection, returns status 200 and the stored record, whose fields
  are, as a dictionary, exactly those of the create response: the submitted ones and the key.
\<close>

theorem create_then_get:
  assumes "creates r = Some (t, c)"
    and "server_db w t = Some tb" and "pk tb = c" and "unused_next tb"
    and "fst (handle reference_server f r w) = Inr resp"
    and "healthy f' (snd (handle reference_server f r w))"
  shows "status_code resp = 201
       \<and> body resp = PDict (submitted r @ [(c, PInt (next_id tb))])
       \<and> fst (handle reference_server f' (reader r (next_id tb))
                (snd (handle reference_server f r w)))
           = Inr \<lparr> status_code = 200, body = PDict ((c, PInt (next_id tb)) # submitted r) \<rparr>
       \<and> map_of ((c, PInt (next_id tb)) # submitted r)
           = map_of (submitted r @ [(c, PInt (next_id tb))])"
proof -
  let ?w' = "snd (handle reference_server f r w)"
  let ?ps = "params_or_empty (bound r)"
  let ?db' = "(server_db w)(t \<mapsto> tb\<lparr> next_id := next_id tb + 1,
      contents := contents tb @ [(c, PInt (next_id tb)) # submitted r] \<rparr>)"
  from handle_create [OF assms(1) assms(5)] obtain v where
    nr: "\<not> rejected r"
    and ex: "fst (execute_query reference_server f (statement r) (bound r) False False True w)
               = Inr v"
    and resp: "resp = \<lparr> status_code = 201, body = PDict (AList.update c v (submitted r)) \<rparr>"
    by blast
  from create_shape [OF assms(1)] obtain cols where
    parse: "parse_sql (statement r) = Some (Insert t cols)"
    and len: "length ?ps = length cols"
    and zip: "zip cols ?ps = submitted r"
    by blast
  have ins: "reference_server (statement r) ?ps (server_db w)
      = Inr (\<lparr> rows = [], rowcount = 1, lastrowid = next_id tb \<rparr>, ?db')"
    using parse len zip assms(2) assms(3) by (simp add: reference_server_def)
  from execute_query_returns [OF ex] ins have
    ok: "acquires f w" "cursor_exc f = None" "execute_exc f = None" "commit_exc f = None"
    and v: "v = PInt (next_id tb)"
    by (auto simp: selected_def)
  have flags: "\<not> wants_one r \<and> \<not> wants_all r \<and> wants_id r"
    using assms(1) by (rule create_flags)
  have db: "server_db ?w' = ?db'"
    using nr flags ok ins
    by (simp add: handle_world execute_query_server_db reaches_commit_def)
  note k = key_appended [OF assms(1), of "PInt (next_id tb)"]
  have st: "status_code resp = 201" using resp by simp
  have bd: "body resp = PDict (submitted r @ [(c, PInt (next_id tb))])"
    using resp v k by simp
  note rd = reader_shape [OF assms(1), of "next_id tb"]
  have sel: "reference_server (statement (reader r (next_id tb)))
        (params_or_empty (bound (reader r (next_id tb)))) (server_db ?w')
      = Inr (\<lparr> rows = [(c, PInt (next_id tb)) # submitted r], rowcount = - 1, lastrowid = 0 \<rparr>,
             ?db')"
    using rd db select_new_row [OF assms(4) assms(3) [symmetric], where t = t
        and n = "next_id tb + 1" and z = "submitted r" and db = "server_db w"]
    by (simp add: reference_server_def params_or_empty_def)
  have one: "fst (execute_query reference_server f' (statement (reader r (next_id tb)))
        (bound (reader r (next_id tb))) True False False ?w')
      = Inr (PDict ((c, PInt (next_id tb)) # submitted r))"
    using assms(6) sel
    by (auto simp: healthy_def acquires_def execute_query_result selected_def
        split: option.splits)
  have get: "fst (handle reference_server f' (reader r (next_id tb)) ?w')
      = Inr \<lparr> status_code = 200, body = PDict ((c, PInt (next_id tb)) # submitted r) \<rparr>"
    using rd one by (intro handle_get_row) simp_all
  from st bd get k show ?thesis by blast
qed

text \<open>The scenario of the specification: client A1, Jane, 555-0100 is created with key 1,
  and a get of key 1 returns the same fields.\<close>

theorem create_then_get_witness:
  "fst (handle reference_server no_faults (CreateCliente jane) shop_world)
     = Inr \<lparr> status_code = 201,
             body = PDict [(''numero_identificacion'', PStr ''A1''),
                           (''nombre_cliente'', PStr ''Jane''),
                           (''telefono_cliente'', PStr ''555-0100''),
                           (''email_cliente'', PNone),
                           (''id_cliente'', PInt 1)] \<rparr>
   \<and> fst (handle reference_server no_faults (GetCliente 1)
            (snd (handle reference_server no_faults (CreateCliente jane) shop_world)))
     = Inr \<lparr> status_code = 200,
             body = PDict [(''id_cliente'', PInt 1),
                           (''numero_identificacion'', PStr ''A1''),
                           (''nombre_cliente'', PStr ''Jane''),
                           (''telefono_cliente'', PStr ''555-0100''),
                           (''email_cliente'', PNone)] \<rparr>"
proof -
  let ?tb = "\<lparr> pk = ''id_cliente'', next_id = 1, contents = [] \<rparr>"
  let ?w' = "snd (handle reference_server no_faults (CreateCliente jane) shop_world)"
  have sub: "submitted (CreateCliente jane)
      = [(''numero_identificacion'', PStr ''A1''), (''nombre_cliente'', PStr ''Jane''),
         (''telefono_cliente'', PStr ''555-0100''), (''email_cliente'', PNone)]"
    by (simp add: ClienteCreate_dict_def jane_def opt_str_def)
  have c: "creates (CreateCliente jane) = Some (''clientes'', ''id_cliente'')" by simp
  have tb: "server_db shop_world ''clientes'' = Some ?tb"
    by (simp add: shop_world_def demo_store_def)
  have pk: "pk ?tb = ''id_cliente''" by simp
  have un: "unused_next ?tb" by (simp add: unused_next_def)
  have ins: "reference_server (statement (CreateCliente jane))
        (params_or_empty (bound (CreateCliente jane))) (server_db shop_world)
      = Inr (\<lparr> rows = [], rowcount = 1, lastrowid = 1 \<rparr>,
             (server_db shop_world)(''clientes'' \<mapsto> ?tb\<lparr> next_id := 2,
                contents := [(''id_cliente'', PInt 1)
                  # zip [''numero_identificacion'', ''nombre_cliente'', ''telefono_cliente'',
                         ''email_cliente''] (ClienteCreate_params jane)] \<rparr>))"
    using tb by (simp add: reference_server_def parse_statements params_or_empty_def
        ClienteCreate_params_def)
  have ex: "fst (execute_query reference_server no_faults (statement (CreateCliente jane))
        (bound (CreateCliente jane)) False False True shop_world) = Inr (PInt 1)"
    using ins by (simp add: execute_query_result selected_def shop_world_def no_faults_def)
  have nr: "\<not> ClienteCreate_missing jane"
    by (simp add: ClienteCreate_missing_def jane_def)
  have cr: "fst (handle reference_server no_faults (CreateCliente jane) shop_world)
      = Inr \<lparr> status_code = 201,
              body = PDict (AList.update ''id_cliente'' (PInt 1) (ClienteCreate_dict jane)) \<rparr>"
    using ex nr by (simp add: create_cliente_def case_prod_beta)
  have pool: "connection_pool ?w' = connection_pool shop_world"
    using nr by (simp add: handle_world execute_query_pool del: handle.simps)
      (simp add: no_faults_def)
  have h: "healthy no_faults ?w'"
    using pool by (simp add: healthy_def acquires_def no_faults_def shop_world_def)
  note g = create_then_get [OF c tb pk un cr h]
  from g sub cr show ?thesis by simp
qed

end
